theory Spec2Isabelle
  imports Main "HOL-Library.Word"
begin

unbundle bit_operations_syntax

section \<open>Bytes and errors\<close>

type_synonym byte = "8 word"
type_synonym uint32 = "32 word"

text \<open>
  The error values of the package. The first block is the \<^verbatim>\<open>var\<close> list of
  \<^verbatim>\<open>id3.go\<close>; the second block are the error values that \<^verbatim>\<open>v24.go\<close> and
  \<^verbatim>\<open>codec24.go\<close> refer to. \<open>ErrBadSync\<close> (``invalid sync code'') is the error
  the specification calls \<open>InvalidSyncCode\<close>. \<open>errShortBuffer\<close> stands for the error
  a reader records when a load or a consume asks for more bytes than there are; the
  reader's source is not part of the repository snapshot and no theorem depends on
  which value it is.
\<close>

datatype error =
    ErrInvalidTag
  | ErrInvalidVersion
  | ErrInvalidHeaderFlags
  | ErrBadSync
  | ErrBadEncoding
  | ErrBadText
  | ErrIncompleteFrame
  | ErrUnknownFrameType
  | ErrInvalidEncoding
  | ErrInvalidFrameHeader
  | ErrInvalidFrameFlags
  | ErrInvalidEncodedString
  | ErrInvalidHeader
  | ErrInvalidFrame
  | ErrFailedCRC
  | ErrInvalidGroupID
  | ErrInvalidEncryptMethod
  | ErrInvalidLyricContentType
  | ErrInvalidPictureType
  | ErrInvalidTimeStampFormat
  | ErrUnimplemented
  | errPaddingEncountered
  | errShortBuffer
  | ErrShortWrite
  | EOF

section \<open>Byte-level primitives\<close>

subsection \<open>Sync-safe integers\<close>

text \<open>
  Modelled from the spec: \<^verbatim>\<open>decodeSyncSafeUint32\<close> is called by \<^verbatim>\<open>id3.go\<close>,
  \<^verbatim>\<open>v24.go\<close> and \<^verbatim>\<open>codec24.go\<close>, but its body is not among the source files.
  Spec 4.1: reject if any input byte has its top bit set (\<open>InvalidSyncCode\<close>); else
  the result is \<open>(b0<<21)|(b1<<14)|(b2<<7)|b3\<close>. The callers also pass the five
  bytes of the CRC slot (spec 4.3: ``5 sync-safe bytes forming a 35-bit CRC value
  (store as uint32)''), so the model takes a byte list, accumulates seven bits per
  byte and keeps the low 32 bits.
\<close>

definition topBitSet :: "byte \<Rightarrow> bool" where
  "topBitSet b = (b AND 0x80 \<noteq> 0)"

definition decodeSyncSafeUint32 :: "byte list \<Rightarrow> error + uint32" where
  "decodeSyncSafeUint32 b =
     (if list_ex topBitSet b then Inl ErrBadSync
      else Inr (foldl (\<lambda>v x. push_bit 7 v OR ucast x) 0 b))"

text \<open>
  Modelled from the spec: \<^verbatim>\<open>encodeSyncSafeUint32(buf, value)\<close> is missing from the
  source files as well. Spec 4.1: reject if value \<open>\<ge> 2^28\<close>; else write 4 bytes each
  masked to 7 bits, MSB-first. The first argument is the length of the window that the
  caller hands in: 4 everywhere except for the CRC slot, which is 5 bytes wide. For a
  window of \<open>n\<close> bytes the model rejects what does not fit into \<open>7 * n\<close> bits (a
  value with a bit set at position \<open>7 * n\<close> or above), which is the spec's bound for
  \<open>n = 4\<close> and lets every 32-bit value into the 5-byte slot. On rejection nothing is
  written.
\<close>

fun syncSafeBytes :: "nat \<Rightarrow> uint32 \<Rightarrow> byte list" where
  "syncSafeBytes 0 v = []"
| "syncSafeBytes (Suc n) v = syncSafeBytes n (drop_bit 7 v) @ [ucast v AND 0x7f]"

definition encodeSyncSafeUint32 :: "nat \<Rightarrow> uint32 \<Rightarrow> error + byte list" where
  "encodeSyncSafeUint32 n v =
     (if drop_bit (7 * n) v \<noteq> 0 then Inl ErrBadSync else Inr (syncSafeBytes n v))"

subsection \<open>Unsynchronization\<close>

text \<open>
  Modelled from the spec: \<^verbatim>\<open>removeUnsyncCodes\<close> and \<^verbatim>\<open>addUnsyncCodes\<close> are called
  by \<^verbatim>\<open>v24.go\<close> but their bodies are not among the source files. Spec 4.1:
  \<^verbatim>\<open>removeUnsyncCodes\<close> copies bytes, but whenever two consecutive input bytes are
  \<open>0xFF 0x00\<close> it emits only \<open>0xFF\<close> and skips the \<open>0x00\<close>;
  \<^verbatim>\<open>addUnsyncCodes\<close> copies bytes and after every \<open>0xFF\<close> whose next byte has its
  top bit set or does not exist inserts a \<open>0x00\<close>.
\<close>

fun removeUnsyncCodes :: "byte list \<Rightarrow> byte list" where
  "removeUnsyncCodes [] = []"
| "removeUnsyncCodes [x] = [x]"
| "removeUnsyncCodes (x # y # rest) =
     (if x = 0xFF \<and> y = 0 then x # removeUnsyncCodes rest
      else x # removeUnsyncCodes (y # rest))"

fun addUnsyncCodes :: "byte list \<Rightarrow> byte list" where
  "addUnsyncCodes [] = []"
| "addUnsyncCodes [x] = (if x = 0xFF then [x, 0] else [x])"
| "addUnsyncCodes (x # y # rest) =
     (if x = 0xFF \<and> topBitSet y then x # 0 # addUnsyncCodes (y # rest)
      else x # addUnsyncCodes (y # rest))"

text \<open>A byte \<open>0xFF\<close> directly followed by a byte \<open>\<ge> 0x80\<close> somewhere in the list.\<close>

fun hasSyncPattern :: "byte list \<Rightarrow> bool" where
  "hasSyncPattern (x # y # rest) = ((x = 0xFF \<and> 0x80 \<le> y) \<or> hasSyncPattern (y # rest))"
| "hasSyncPattern _ = False"



section \<open>The stream-level dispatcher of \<^verbatim>\<open>id3.go\<close>\<close>

text \<open>
  \<^verbatim>\<open>id3.go\<close> declares its own \<^verbatim>\<open>Tag\<close> (version and flags as \<^verbatim>\<open>uint8\<close>, the size as
  \<^verbatim>\<open>uint32\<close>); the fields carry the prefix \<open>tag_\<close> here to keep them apart from
  the \<^verbatim>\<open>Tag\<close> that \<^verbatim>\<open>v24.go\<close> works on. The frame type is left open.
\<close>

record 'f Tag_id3 =
  tag_Version :: byte
  tag_Flags :: byte
  tag_Size :: uint32
  tag_Frames :: "'f list"

definition TagFlagUnsync_id3 :: byte where
  "TagFlagUnsync_id3 = push_bit 7 1"

text \<open>
  A Go function either returns or panics; \<open>Panic\<close> carries the panic's message.
\<close>

datatype 'a outcome = Panic string | Return 'a

text \<open>
  An \<^verbatim>\<open>io.Reader\<close>: the list of the deliveries it still has to make. One call of
  \<^verbatim>\<open>Read(p)\<close> hands over the next delivery, its bytes together with its error; a
  delivery that is longer than \<^verbatim>\<open>p\<close> fills \<^verbatim>\<open>p\<close> and keeps the rest for the next
  call. A reader with nothing left answers \<open>0, io.EOF\<close>.
\<close>

type_synonym ioReader = "(byte list \<times> error option) list"

fun Read :: "ioReader \<Rightarrow> nat \<Rightarrow> byte list \<times> error option \<times> ioReader" where
  "Read [] n = ([], Some EOF, [])"
| "Read ((d, e) # rest) n =
     (if length d \<le> n then (d, e, rest) else (take n d, None, (drop n d, e) # rest))"

text \<open>
  An \<^verbatim>\<open>io.Writer\<close>: the bytes it has accepted and the room it has left. A write that
  does not fit is cut short and reports an error.
\<close>

record ioWriter =
  written :: "byte list"
  room :: nat

definition Write :: "ioWriter \<Rightarrow> byte list \<Rightarrow> nat \<times> error option \<times> ioWriter" where
  "Write w p =
     (if length p \<le> room w
      then (length p, None, w\<lparr>written := written w @ p, room := room w - length p\<rparr>)
      else (room w, Some ErrShortWrite,
            w\<lparr>written := written w @ take (room w) p, room := 0\<rparr>))"

text \<open>
  The \<^verbatim>\<open>codec\<close> interface as \<^verbatim>\<open>id3.go\<close> uses it: \<^verbatim>\<open>decode(t, r)\<close> returns the number
  of bytes read and an error and fills the tag; \<^verbatim>\<open>encode(t, w)\<close> returns the size and
  an error and writes to \<^verbatim>\<open>w\<close> (the third component are the bytes written). The types
  \<^verbatim>\<open>codec22\<close>, \<^verbatim>\<open>codec23\<close> and \<^verbatim>\<open>codec24\<close> with these methods, and
  \<^verbatim>\<open>newUnsyncReader\<close> and \<^verbatim>\<open>newUnsyncWriter\<close>, are not among the source files; they
  are parameters of the model, collected in \<open>env\<close>. \<open>unsyncReader\<close> maps a reader
  to the reader wrapped around it; \<open>unsyncWriter\<close> maps the bytes written through
  the wrapping writer to the bytes that reach the buffer underneath.
\<close>

record 'f codec =
  decode :: "'f Tag_id3 \<Rightarrow> ioReader \<Rightarrow> nat \<times> error option \<times> 'f Tag_id3"
  encode :: "'f Tag_id3 \<Rightarrow> nat \<times> error option \<times> byte list"

record 'f env =
  codec22 :: "'f codec"
  codec23 :: "'f codec"
  codec24 :: "'f codec"
  unsyncReader :: "ioReader \<Rightarrow> ioReader"
  unsyncWriter :: "byte list \<Rightarrow> byte list"

text \<open>\<^verbatim>\<open>getCodec\<close>, \<^verbatim>\<open>id3.go\<close> lines 41-52.\<close>

definition getCodec :: "'f env \<Rightarrow> byte \<Rightarrow> 'f codec outcome" where
  "getCodec E v =
     (if v = 2 then Return (codec22 E)
      else if v = 3 then Return (codec23 E)
      else if v = 4 then Return (codec24 E)
      else Panic ''invalid codec version'')"

text \<open>
  \<^verbatim>\<open>Tag.ReadFrom\<close>, \<^verbatim>\<open>id3.go\<close> lines 56-103. The result is the byte count, the
  error, and the tag as the caller sees it afterwards (the method writes through its
  receiver). \<^verbatim>\<open>hdr\<close> is a zeroed 10-byte buffer that the one \<^verbatim>\<open>Read\<close> call fills from
  the front.
\<close>

definition ID3 :: "byte list" where
  "ID3 = [0x49, 0x44, 0x33]"

definition ReadFrom ::
  "'f env \<Rightarrow> 'f Tag_id3 \<Rightarrow> ioReader \<Rightarrow> (int \<times> error option \<times> 'f Tag_id3) outcome" where
  "ReadFrom E t r =
     (case Read r 10 of (d, e, r1) \<Rightarrow>
        let hdr = d @ replicate (10 - length d) 0;
            n = length d;
            nn = int n
        in if n < 10 \<or> e \<noteq> None then Return (nn, Some ErrInvalidTag, t)
           else if take 3 hdr \<noteq> ID3 then Return (nn, Some ErrInvalidTag, t)
           else let t1 = t\<lparr>tag_Version := hdr ! 3\<rparr> in
             if tag_Version t1 < 2 \<or> tag_Version t1 > 4
             then Return (nn, Some ErrInvalidVersion, t1)
             else if hdr ! 4 \<noteq> 0 then Return (nn, Some ErrInvalidVersion, t1)
             else let t2 = t1\<lparr>tag_Flags := hdr ! 5\<rparr>;
                      r2 = (if tag_Flags t2 AND TagFlagUnsync_id3 \<noteq> 0
                            then unsyncReader E r1 else r1)
               in case decodeSyncSafeUint32 (take 4 (drop 6 hdr)) of
                    Inl e' \<Rightarrow> Return (nn, Some e', t2\<lparr>tag_Size := 0\<rparr>)
                  | Inr sz \<Rightarrow>
                      let t3 = t2\<lparr>tag_Size := sz\<rparr> in
                      (case getCodec E (tag_Version t3) of
                         Panic m \<Rightarrow> Panic m
                       | Return c \<Rightarrow>
                           (case decode c t3 r2 of (n', e', t4) \<Rightarrow>
                              Return (nn + int n', e', t4))))"

text \<open>
  \<^verbatim>\<open>Tag.WriteTo\<close>, \<^verbatim>\<open>id3.go\<close> lines 107-141. The result is the byte count, the error
  and the output stream afterwards.
\<close>

definition WriteTo ::
  "'f env \<Rightarrow> 'f Tag_id3 \<Rightarrow> ioWriter \<Rightarrow> (int \<times> error option \<times> ioWriter) outcome" where
  "WriteTo E t w =
     (case getCodec E (tag_Version t) of
        Panic m \<Rightarrow> Panic m
      | Return c \<Rightarrow>
          (case encode c t of (siz, e, out) \<Rightarrow>
             let tmpbuf = (if tag_Flags t AND TagFlagUnsync_id3 \<noteq> 0
                           then unsyncWriter E out else out)
             in case e of
                  Some e' \<Rightarrow> Return (0, Some e', w)
                | None \<Rightarrow>
                    (case encodeSyncSafeUint32 4 (of_nat siz) of
                       Inl e' \<Rightarrow> Return (0, Some e', w)
                     | Inr sz \<Rightarrow>
                         let hdr = ID3 @ [tag_Version t, 0, tag_Flags t] @ sz in
                         (case Write w hdr of (n, e1, w1) \<Rightarrow>
                            (case e1 of
                               Some e' \<Rightarrow> Return (int n, Some e', w1)
                             | None \<Rightarrow>
                                 (case Write w1 tmpbuf of (n2, e2, w2) \<Rightarrow>
                                    Return (int n + int n2, e2, w2)))))))"

text \<open>
  Concrete parameters for evaluating the dispatcher: codecs that read and write nothing,
  wrappers that pass everything through, and the zero value of \<^verbatim>\<open>Tag\<close>.
\<close>

definition nullCodec :: "unit codec" where
  "nullCodec = \<lparr>decode = (\<lambda>t r. (0, None, t)), encode = (\<lambda>t. (0, None, []))\<rparr>"

definition nullEnv :: "unit env" where
  "nullEnv = \<lparr>codec22 = nullCodec, codec23 = nullCodec, codec24 = nullCodec,
     unsyncReader = (\<lambda>r. r), unsyncWriter = (\<lambda>b. b)\<rparr>"

definition zeroTag_id3 :: "unit Tag_id3" where
  "zeroTag_id3 = \<lparr>tag_Version = 0, tag_Flags = 0, tag_Size = 0, tag_Frames = []\<rparr>"


section \<open>The v2.4 codec of \<^verbatim>\<open>v24.go\<close>: data\<close>

subsection \<open>CRC-32\<close>

text \<open>
  \<^verbatim>\<open>crc32.ChecksumIEEE\<close> of Go's standard library: CRC-32 with the IEEE polynomial
  (reflected form \<open>0xEDB88320\<close>), initial value and final complement \<open>0xFFFFFFFF\<close>,
  computed bit by bit.
\<close>

definition crcBit :: "uint32 \<Rightarrow> uint32" where
  "crcBit c = (if bit c 0 then drop_bit 1 c XOR 0xEDB88320 else drop_bit 1 c)"

definition crcByte :: "uint32 \<Rightarrow> byte \<Rightarrow> uint32" where
  "crcByte c b =
     crcBit (crcBit (crcBit (crcBit (crcBit (crcBit (crcBit (crcBit (c XOR ucast b))))))))"

definition ChecksumIEEE :: "byte list \<Rightarrow> uint32" where
  "ChecksumIEEE bs = foldl crcByte 0xFFFFFFFF bs XOR 0xFFFFFFFF"

subsection \<open>Tags, frames and flags\<close>

text \<open>
  \<^verbatim>\<open>TagFlags\<close> and its constants (the \<^verbatim>\<open>iota\<close> block next to \<^verbatim>\<open>Tag\<close>).
\<close>

type_synonym TagFlags = uint32

definition TagFlagUnsync :: TagFlags where "TagFlagUnsync = 1"
definition TagFlagExtended :: TagFlags where "TagFlagExtended = 2"
definition TagFlagExperimental :: TagFlags where "TagFlagExperimental = 4"
definition TagFlagFooter :: TagFlags where "TagFlagFooter = 8"
definition TagFlagIsUpdate :: TagFlags where "TagFlagIsUpdate = 16"
definition TagFlagHasCRC :: TagFlags where "TagFlagHasCRC = 32"
definition TagFlagHasRestrictions :: TagFlags where "TagFlagHasRestrictions = 64"

text \<open>
  \<^verbatim>\<open>FrameFlags\<close>. \<^verbatim>\<open>v24.go\<close> converts them from and to \<^verbatim>\<open>uint32\<close>; the constants'
  values are those of the \<^verbatim>\<open>FrameFlag*\<close> block of the frame source file (where
  \<^verbatim>\<open>FrameFlagHasGroupID\<close> still has its older name \<^verbatim>\<open>FrameFlagHasGroupInfo\<close>).
\<close>

type_synonym FrameFlags = uint32

definition FrameFlagDiscardOnTagAlteration :: FrameFlags where
  "FrameFlagDiscardOnTagAlteration = 1"
definition FrameFlagDiscardOnFileAlteration :: FrameFlags where
  "FrameFlagDiscardOnFileAlteration = 2"
definition FrameFlagReadOnly :: FrameFlags where "FrameFlagReadOnly = 4"
definition FrameFlagHasGroupID :: FrameFlags where "FrameFlagHasGroupID = 8"
definition FrameFlagCompressed :: FrameFlags where "FrameFlagCompressed = 16"
definition FrameFlagEncrypted :: FrameFlags where "FrameFlagEncrypted = 32"
definition FrameFlagUnsynchronized :: FrameFlags where "FrameFlagUnsynchronized = 64"
definition FrameFlagHasDataLength :: FrameFlags where "FrameFlagHasDataLength = 128"

text \<open>
  A Go string is a sequence of bytes; frame IDs are kept as the four bytes they are on
  the wire. A \<^verbatim>\<open>FrameType\<close> is represented by the name of its constant.
\<close>

type_synonym gostring = "byte list"
type_synonym FrameType = string

definition bytesOf :: "string \<Rightarrow> gostring" where
  "bytesOf s = map of_char s"

text \<open>
  The frame header with the fields \<^verbatim>\<open>v24.go\<close> reads and writes, and the frame as
  header plus payload. The payload type is left open: \<^verbatim>\<open>v24.go\<close> hands payloads to
  the frame-schema scanner and emitter and never looks inside.
\<close>

record FrameHeader =
  FrameID :: gostring
  FrameType :: FrameType
  hSize :: int
  hFlags :: FrameFlags
  GroupID :: byte
  EncryptMethod :: byte
  DataLength :: uint32

record 'p Frame =
  Header :: FrameHeader
  Payload :: 'p

text \<open>The \<^verbatim>\<open>Tag\<close> that \<^verbatim>\<open>v24.go\<close> works on.\<close>

record 'p Tag =
  Version :: byte
  Flags :: TagFlags
  Size :: int
  Padding :: int
  CRC :: uint32
  Restrictions :: byte
  Frames :: "'p Frame list"

text \<open>
  Modelled from the spec: the type \<^verbatim>\<open>flagMap\<close> and its methods \<^verbatim>\<open>Decode\<close> and
  \<^verbatim>\<open>Encode\<close> are not among the source files. A flag map is the list of pairs (bit
  on the wire, flag) that \<^verbatim>\<open>newCodec24\<close> writes down; decoding collects the flags
  whose wire bit is set, encoding collects the wire bits whose flag is set.
\<close>

type_synonym flagMap = "(uint32 \<times> uint32) list"

definition flagMap_Decode :: "flagMap \<Rightarrow> uint32 \<Rightarrow> uint32" where
  "flagMap_Decode m x = foldl (\<lambda>acc (w, f). if x AND w \<noteq> 0 then acc OR f else acc) 0 m"

definition flagMap_Encode :: "flagMap \<Rightarrow> uint32 \<Rightarrow> uint32" where
  "flagMap_Encode m x = foldl (\<lambda>acc (w, f). if x AND f \<noteq> 0 then acc OR w else acc) 0 m"

text \<open>The tables of \<^verbatim>\<open>newCodec24\<close>, \<^verbatim>\<open>v24.go\<close> lines 19-124.\<close>

definition headerFlags :: flagMap where
  "headerFlags =
     [(push_bit 7 1, TagFlagUnsync), (push_bit 6 1, TagFlagExtended),
      (push_bit 5 1, TagFlagExperimental), (push_bit 4 1, TagFlagFooter)]"

definition headerExFlags :: flagMap where
  "headerExFlags =
     [(push_bit 6 1, TagFlagIsUpdate), (push_bit 5 1, TagFlagHasCRC),
      (push_bit 4 1, TagFlagHasRestrictions)]"

definition frameFlags :: flagMap where
  "frameFlags =
     [(push_bit 14 1, FrameFlagDiscardOnTagAlteration),
      (push_bit 13 1, FrameFlagDiscardOnFileAlteration),
      (push_bit 12 1, FrameFlagReadOnly),
      (push_bit 6 1, FrameFlagHasGroupID),
      (push_bit 3 1, FrameFlagCompressed),
      (push_bit 2 1, FrameFlagEncrypted),
      (push_bit 1 1, FrameFlagUnsynchronized),
      (push_bit 0 1, FrameFlagHasDataLength)]"

text \<open>
  The bounds table of \<^verbatim>\<open>v24.go\<close> (lines 41-48): field type name, minimum, maximum and
  the error for a value outside.
\<close>

definition bounds_v24 :: "(string \<times> nat \<times> nat \<times> error) list" where
  "bounds_v24 =
     [(''Encoding'', 0, 3, ErrInvalidEncoding),
      (''EncryptMethod'', 0x80, 0xf0, ErrInvalidEncryptMethod),
      (''GroupID'', 0x80, 0xf0, ErrInvalidGroupID),
      (''LyricContentType'', 0, 8, ErrInvalidLyricContentType),
      (''PictureType'', 0, 20, ErrInvalidPictureType),
      (''TimeStampFormat'', 1, 2, ErrInvalidTimeStampFormat)]"

definition frameTypes :: "(FrameType \<times> string) list" where
  "frameTypes =
     [(''FrameTypeAttachedPicture'', ''APIC''),
      (''FrameTypeAudioEncryption'', ''AENC''),
      (''FrameTypeAudioSeekPointIndex'', ''ASPI''),
      (''FrameTypeComment'', ''COMM''),
      (''FrameTypeEncryptionMethodRegistration'', ''ENCR''),
      (''FrameTypeGroupID'', ''GRID''),
      (''FrameTypePlayCount'', ''PCNT''),
      (''FrameTypePopularimeter'', ''POPM''),
      (''FrameTypePrivate'', ''PRIV''),
      (''FrameTypeLyricsSync'', ''SYLT''),
      (''FrameTypeSyncTempoCodes'', ''SYTC''),
      (''FrameTypeTextAlbumName'', ''TALB''),
      (''FrameTypeTextBPM'', ''TBPM''),
      (''FrameTypeTextCompilationItunes'', ''TCMP''),
      (''FrameTypeTextComposer'', ''TCOM''),
      (''FrameTypeTextGenre'', ''TCON''),
      (''FrameTypeTextCopyright'', ''TCOP''),
      (''FrameTypeTextEncodingTime'', ''TDEN''),
      (''FrameTypeTextPlaylistDelay'', ''TDLY''),
      (''FrameTypeTextOriginalReleaseTime'', ''TDOR''),
      (''FrameTypeTextRecordingTime'', ''TDRC''),
      (''FrameTypeTextReleaseTime'', ''TDRL''),
      (''FrameTypeTextTaggingTime'', ''TDTG''),
      (''FrameTypeTextEncodedBy'', ''TENC''),
      (''FrameTypeTextLyricist'', ''TEXT''),
      (''FrameTypeTextFileType'', ''TFLT''),
      (''FrameTypeTextInvolvedPeople'', ''TIPL''),
      (''FrameTypeTextGroupDescription'', ''TIT1''),
      (''FrameTypeTextSongTitle'', ''TIT2''),
      (''FrameTypeTextSongSubtitle'', ''TIT3''),
      (''FrameTypeTextMusicalKey'', ''TKEY''),
      (''FrameTypeTextLanguage'', ''TLAN''),
      (''FrameTypeTextLengthInMs'', ''TLEN''),
      (''FrameTypeTextMusicians'', ''TMCL''),
      (''FrameTypeTextMediaType'', ''TMED''),
      (''FrameTypeTextMood'', ''TMOO''),
      (''FrameTypeTextOriginalAlbum'', ''TOAL''),
      (''FrameTypeTextOriginalFileName'', ''TOFN''),
      (''FrameTypeTextOriginalLyricist'', ''TOLY''),
      (''FrameTypeTextOriginalPerformer'', ''TOPE''),
      (''FrameTypeTextOwner'', ''TOWN''),
      (''FrameTypeTextArtist'', ''TPE1''),
      (''FrameTypeTextAlbumArtist'', ''TPE2''),
      (''FrameTypeTextConductor'', ''TPE3''),
      (''FrameTypeTextRemixer'', ''TPE4''),
      (''FrameTypeTextPartOfSet'', ''TPOS''),
      (''FrameTypeTextProducedNotice'', ''TPRO''),
      (''FrameTypeTextPublisher'', ''TPUB''),
      (''FrameTypeTextTrackNumber'', ''TRCK''),
      (''FrameTypeTextRadioStation'', ''TRSN''),
      (''FrameTypeTextRadioStationOwner'', ''TRSO''),
      (''FrameTypeTextAlbumSortOrderItunes'', ''TSO2''),
      (''FrameTypeTextAlbumSortOrder'', ''TSOA''),
      (''FrameTypeTextComposerSortOrderItunes'', ''TSOC''),
      (''FrameTypeTextPerformerSortOrder'', ''TSOP''),
      (''FrameTypeTextTitleSortOrder'', ''TSOT''),
      (''FrameTypeTextISRC'', ''TSRC''),
      (''FrameTypeTextEncodingSoftware'', ''TSSE''),
      (''FrameTypeTextSetSubtitle'', ''TSST''),
      (''FrameTypeTextCustom'', ''TXXX''),
      (''FrameTypeUniqueFileID'', ''UFID''),
      (''FrameTypeTermsOfUse'', ''USER''),
      (''FrameTypeLyricsUnsync'', ''USLT''),
      (''FrameTypeURLCommercial'', ''WCOM''),
      (''FrameTypeURLCopyright'', ''WCOP''),
      (''FrameTypeURLAudioFile'', ''WOAF''),
      (''FrameTypeURLArtist'', ''WOAR''),
      (''FrameTypeURLAudioSource'', ''WOAS''),
      (''FrameTypeURLRadioStation'', ''WORS''),
      (''FrameTypeURLPayment'', ''WPAY''),
      (''FrameTypeURLPublisher'', ''WPUB''),
      (''FrameTypeURLCustom'', ''WXXX''),
      (''FrameTypeUnknown'', ''ZZZZ'')]"

text \<open>
  Modelled from the spec: \<^verbatim>\<open>newFrameTypeMap\<close> and \<^verbatim>\<open>LookupFrameType\<close> are not among
  the source files. Spec section 2: a bidirectional mapping between frame IDs and
  frame types; an unrecognised ID surfaces as the \<open>Unknown\<close> variant.
\<close>

fun lookupID :: "(FrameType \<times> string) list \<Rightarrow> gostring \<Rightarrow> FrameType" where
  "lookupID [] fid = ''FrameTypeUnknown''"
| "lookupID ((ty, s) # rest) fid = (if bytesOf s = fid then ty else lookupID rest fid)"

definition LookupFrameType :: "gostring \<Rightarrow> FrameType" where
  "LookupFrameType fid = lookupID frameTypes fid"

subsection \<open>Buffered reader and writer\<close>

text \<open>
  Modelled from the spec: the types \<^verbatim>\<open>reader\<close> and \<^verbatim>\<open>writer\<close> are not among the
  source files. Spec 4.2: \<^verbatim>\<open>Load(n)\<close> ensures that the next \<open>n\<close> bytes of the stream
  are available; \<^verbatim>\<open>Len\<close> is what remains in the buffer; \<^verbatim>\<open>ConsumeByte\<close>,
  \<^verbatim>\<open>ConsumeBytes(n)\<close> and \<^verbatim>\<open>ConsumeAll\<close> take bytes from the front;
  \<^verbatim>\<open>ConsumeIntoNewReader(n)\<close> creates a bounded sub-reader over the next \<open>n\<close> bytes
  and advances the parent; \<^verbatim>\<open>ReplaceBuffer\<close> substitutes the remaining buffer;
  \<^verbatim>\<open>Bytes\<close> is a view of the buffer. The reader is error-sticky: once a consume or
  a load fails, all subsequent operations short-circuit and return zeros.

  \<open>buf\<close> holds the loaded bytes that are not consumed yet, \<open>src\<close> the bytes of the
  stream that are not loaded yet.
\<close>

record reader =
  buf :: "byte list"
  src :: "byte list"
  err :: "error option"

definition Load :: "nat \<Rightarrow> reader \<Rightarrow> reader" where
  "Load n r =
     (if err r \<noteq> None then r
      else if length (src r) < n then r\<lparr>err := Some EOF\<rparr>
      else r\<lparr>buf := buf r @ take n (src r), src := drop n (src r)\<rparr>)"

definition Len :: "reader \<Rightarrow> nat" where
  "Len r = length (buf r)"

definition Bytes :: "reader \<Rightarrow> byte list" where
  "Bytes r = buf r"

definition ConsumeByte :: "reader \<Rightarrow> byte \<times> reader" where
  "ConsumeByte r =
     (if err r \<noteq> None then (0, r)
      else case buf r of
             [] \<Rightarrow> (0, r\<lparr>err := Some errShortBuffer\<rparr>)
           | b # bs \<Rightarrow> (b, r\<lparr>buf := bs\<rparr>))"

definition ConsumeBytes :: "nat \<Rightarrow> reader \<Rightarrow> byte list \<times> reader" where
  "ConsumeBytes n r =
     (if err r \<noteq> None then (replicate n 0, r)
      else if length (buf r) < n then (replicate n 0, r\<lparr>err := Some errShortBuffer\<rparr>)
      else (take n (buf r), r\<lparr>buf := drop n (buf r)\<rparr>))"

definition ConsumeAll :: "reader \<Rightarrow> byte list \<times> reader" where
  "ConsumeAll r = (if err r \<noteq> None then ([], r) else (buf r, r\<lparr>buf := []\<rparr>))"

definition ConsumeIntoNewReader :: "nat \<Rightarrow> reader \<Rightarrow> reader \<times> reader" where
  "ConsumeIntoNewReader n r =
     (if err r \<noteq> None then (\<lparr>buf = [], src = [], err = err r\<rparr>, r)
      else if length (buf r) < n
      then (\<lparr>buf = [], src = [], err = Some errShortBuffer\<rparr>, r\<lparr>err := Some errShortBuffer\<rparr>)
      else (\<lparr>buf = take n (buf r), src = [], err = None\<rparr>, r\<lparr>buf := drop n (buf r)\<rparr>))"

definition ReplaceBuffer :: "byte list \<Rightarrow> reader \<Rightarrow> reader" where
  "ReplaceBuffer b r = r\<lparr>buf := b\<rparr>"

text \<open>
  Spec 4.2, writer: \<^verbatim>\<open>StoreByte\<close> and \<^verbatim>\<open>StoreBytes\<close> append to the staging buffer;
  \<^verbatim>\<open>Len\<close> is its length; \<^verbatim>\<open>SliceBuffer(offset, len)\<close> is a mutable window for
  back-patching, modelled by \<open>SliceBuffer_put\<close>, which overwrites the window's front
  with the given bytes; \<^verbatim>\<open>ConsumeBytesFromOffset(offset)\<close> lifts out the tail;
  \<^verbatim>\<open>Save\<close> flushes the buffer to the underlying sink. \<^verbatim>\<open>v24.go\<close> assigns to the
  writer's \<^verbatim>\<open>err\<close> field and returns it; a store on a writer in error does nothing.
\<close>

record writer =
  wbuf :: "byte list"
  werr :: "error option"
  sink :: ioWriter

definition StoreBytes :: "byte list \<Rightarrow> writer \<Rightarrow> writer" where
  "StoreBytes bs w = (if werr w \<noteq> None then w else w\<lparr>wbuf := wbuf w @ bs\<rparr>)"

definition StoreByte :: "byte \<Rightarrow> writer \<Rightarrow> writer" where
  "StoreByte b w = StoreBytes [b] w"

definition wLen :: "writer \<Rightarrow> nat" where
  "wLen w = length (wbuf w)"


definition SliceBuffer_put :: "nat \<Rightarrow> byte list \<Rightarrow> writer \<Rightarrow> writer" where
  "SliceBuffer_put off bs w =
     w\<lparr>wbuf := take off (wbuf w) @ bs @ drop (off + length bs) (wbuf w)\<rparr>"

definition ConsumeBytesFromOffset :: "nat \<Rightarrow> writer \<Rightarrow> byte list \<times> writer" where
  "ConsumeBytesFromOffset off w = (drop off (wbuf w), w\<lparr>wbuf := take off (wbuf w)\<rparr>)"


text \<open>
  \<^verbatim>\<open>encodeSyncSafeUint32(w.SliceBuffer(off, n), v)\<close> as \<^verbatim>\<open>v24.go\<close> calls it when it
  back-patches: the returned error is dropped, and a rejected value leaves the window
  as it was.
\<close>

definition putSyncSafe :: "nat \<Rightarrow> nat \<Rightarrow> uint32 \<Rightarrow> writer \<Rightarrow> writer" where
  "putSyncSafe off n v w =
     (case encodeSyncSafeUint32 n v of Inl e \<Rightarrow> w | Inr bs \<Rightarrow> SliceBuffer_put off bs w)"

section \<open>The v2.4 codec of \<^verbatim>\<open>v24.go\<close>: decoding\<close>

text \<open>
  The frame-schema scanner \<^verbatim>\<open>rf.ScanFrame(r, id)\<close> and the emitter
  \<^verbatim>\<open>rf.OutputFrame(w, f)\<close> belong to the reflector, which is not among the source
  files. They are parameters of the codec: \<open>ScanFrame\<close> maps the sub-reader and the
  frame ID to an error or a payload; \<open>OutputFrame\<close> maps a frame to an error or to the
  frame ID it reports together with the payload bytes it writes.
\<close>

type_synonym 'p scanner = "reader \<Rightarrow> gostring \<Rightarrow> error + 'p"
type_synonym 'p emitter = "'p Frame \<Rightarrow> error + gostring \<times> byte list"

text \<open>
  \<^verbatim>\<open>decodeFrame\<close>, lines 293-333: the extra header data announced by the frame flags,
  one function per flag, in the order of the source.
\<close>

definition extraGroupID :: "FrameHeader \<Rightarrow> reader \<Rightarrow> (error + FrameHeader) \<times> reader" where
  "extraGroupID h r =
     (if hFlags h AND FrameFlagHasGroupID \<noteq> 0
      then (case ConsumeByte r of (gid, r1) \<Rightarrow>
              (case err r1 of
                 Some e \<Rightarrow> (Inl e, r1)
               | None \<Rightarrow>
                   if gid < 0x80 \<or> gid > 0xf0 then (Inl ErrInvalidGroupID, r1)
                   else (Inr (h\<lparr>GroupID := gid\<rparr>), r1)))
      else (Inr h, r))"

definition extraEncryptMethod :: "FrameHeader \<Rightarrow> reader \<Rightarrow> (error + FrameHeader) \<times> reader" where
  "extraEncryptMethod h r =
     (if hFlags h AND FrameFlagEncrypted \<noteq> 0
      then (case ConsumeByte r of (em, r1) \<Rightarrow>
              (case err r1 of
                 Some e \<Rightarrow> (Inl e, r1)
               | None \<Rightarrow>
                   if em < 0x80 \<or> em > 0xf0 then (Inl ErrInvalidEncryptMethod, r1)
                   else (Inr (h\<lparr>EncryptMethod := em\<rparr>), r1)))
      else (Inr h, r))"

definition extraDataLength :: "FrameHeader \<Rightarrow> reader \<Rightarrow> (error + FrameHeader) \<times> reader" where
  "extraDataLength h r =
     (if hFlags h AND FrameFlagHasDataLength \<noteq> 0
      then (case ConsumeBytes 4 r of (b, r1) \<Rightarrow>
              (case err r1 of
                 Some e \<Rightarrow> (Inl ErrInvalidFrameHeader, r1)
               | None \<Rightarrow>
                   (case decodeSyncSafeUint32 b of
                      Inl e \<Rightarrow> (Inl e, r1)
                    | Inr dl \<Rightarrow> (Inr (h\<lparr>DataLength := dl\<rparr>), r1))))
      else (Inr h, r))"

definition decodeExtraHeader :: "FrameHeader \<Rightarrow> reader \<Rightarrow> (error + FrameHeader) \<times> reader" where
  "decodeExtraHeader h r =
     (if hFlags h \<noteq> 0
      then if hFlags h AND FrameFlagCompressed \<noteq> 0 \<and> hFlags h AND FrameFlagHasDataLength = 0
           then (Inl ErrInvalidFrameFlags, r)
           else (case extraGroupID h r of
                   (Inl e, r1) \<Rightarrow> (Inl e, r1)
                 | (Inr h1, r1) \<Rightarrow>
                     (case extraEncryptMethod h1 r1 of
                        (Inl e, r2) \<Rightarrow> (Inl e, r2)
                      | (Inr h2, r2) \<Rightarrow> extraDataLength h2 r2))
      else (Inr h, r))"

text \<open>
  \<^verbatim>\<open>codec24.decodeFrame\<close>, lines 248-348. The result is the error or the frame,
  together with the caller's reader as the call leaves it. \<^verbatim>\<open>r\<close> is rebound to the
  sub-reader in line 285; from there on the caller's reader is \<open>r3\<close>.
\<close>

definition decodeFrame ::
  "'p scanner \<Rightarrow> 'p Tag \<Rightarrow> reader \<Rightarrow> (error + 'p Frame) \<times> reader" where
  "decodeFrame ScanFrame t r =
     (case ConsumeBytes 4 r of (fid, r1) \<Rightarrow>
      (case err r1 of
         Some e \<Rightarrow> (Inl e, r1)
       | None \<Rightarrow>
         if fid ! 0 = 0 \<and> fid ! 1 = 0 \<and> fid ! 2 = 0 \<and> fid ! 3 = 0
         then (Inl errPaddingEncountered, r1)
         else (case ConsumeBytes 6 r1 of (hd6, r2) \<Rightarrow>
           (case err r2 of
              Some e \<Rightarrow> (Inl e, r2)
            | None \<Rightarrow>
              (case decodeSyncSafeUint32 (take 4 hd6) of
                 Inl e \<Rightarrow> (Inl e, r2)
               | Inr sz \<Rightarrow>
                 if sz < 1 then (Inl ErrInvalidFrameHeader, r2)
                 else
                   let flags = flagMap_Decode frameFlags
                                 (push_bit 8 (ucast (hd6 ! 4)) OR ucast (hd6 ! 5));
                       h = \<lparr>FrameID = fid, FrameType = [], hSize = uint sz, hFlags = flags,
                            GroupID = 0, EncryptMethod = 0, DataLength = 0\<rparr>
                   in (case ConsumeIntoNewReader (nat (hSize h)) r2 of (sub, r3) \<Rightarrow>
                     let sub1 =
                           (if hFlags h AND FrameFlagUnsynchronized \<noteq> 0
                               \<and> Flags t AND TagFlagUnsync = 0
                            then (case ConsumeAll sub of (b, sub') \<Rightarrow>
                                    ReplaceBuffer (removeUnsyncCodes b) sub')
                            else sub)
                     in (case decodeExtraHeader h sub1 of
                           (Inl e, sub2) \<Rightarrow> (Inl e, r3)
                         | (Inr h1, sub2) \<Rightarrow>
                             (case ScanFrame sub2 (FrameID h1) of
                                Inl e \<Rightarrow> (Inl e, r3)
                              | Inr p \<Rightarrow>
                                  (Inr \<lparr>Header = h1\<lparr>FrameType := LookupFrameType (FrameID h1)\<rparr>,
                                        Payload = p\<rparr>, r3)))))))))"

text \<open>
  \<^verbatim>\<open>codec24.Decode\<close>, lines 165-216: the extended header. Each of the three optional
  segments is a function of the tag, the reader and the count of extended-header bytes
  consumed so far. Where the source assigns \<^verbatim>\<open>t.CRC, err = decodeSyncSafeUint32(...)\<close>
  and the call fails, the value stored beside the error is taken to be 0.
\<close>

definition exIsUpdate :: "'p Tag \<Rightarrow> reader \<Rightarrow> nat \<Rightarrow> error option \<times> 'p Tag \<times> reader \<times> nat" where
  "exIsUpdate t r c =
     (if Flags t AND TagFlagIsUpdate \<noteq> 0
      then (case ConsumeByte r of (b, r1) \<Rightarrow> (None, t, r1, c + 1))
      else (None, t, r, c))"

definition exCRC :: "'p Tag \<Rightarrow> reader \<Rightarrow> nat \<Rightarrow> error option \<times> 'p Tag \<times> reader \<times> nat" where
  "exCRC t r c =
     (if Flags t AND TagFlagHasCRC \<noteq> 0
      then (case ConsumeBytes 6 r of (data, r1) \<Rightarrow>
              if data ! 0 \<noteq> 5 then (Some ErrInvalidHeader, t, r1, c)
              else (case decodeSyncSafeUint32 (drop 1 data) of
                      Inl e \<Rightarrow> (Some ErrInvalidHeader, t\<lparr>CRC := 0\<rparr>, r1, c)
                    | Inr v \<Rightarrow> (None, t\<lparr>CRC := v\<rparr>, r1, c + 6)))
      else (None, t, r, c))"

definition exRestrictions :: "'p Tag \<Rightarrow> reader \<Rightarrow> nat \<Rightarrow> error option \<times> 'p Tag \<times> reader \<times> nat" where
  "exRestrictions t r c =
     (if Flags t AND TagFlagHasRestrictions \<noteq> 0
      then (case ConsumeByte r of (b, r1) \<Rightarrow>
              if b \<noteq> 1 then (Some ErrInvalidHeader, t, r1, c)
              else (case ConsumeByte r1 of (v, r2) \<Rightarrow> (None, t\<lparr>Restrictions := v\<rparr>, r2, c + 2)))
      else (None, t, r, c))"

definition decodeExtendedHeader :: "'p Tag \<Rightarrow> reader \<Rightarrow> error option \<times> 'p Tag \<times> reader" where
  "decodeExtendedHeader t r =
     (case ConsumeBytes 4 r of (b, r1) \<Rightarrow>
      (case decodeSyncSafeUint32 b of
         Inl e \<Rightarrow> (Some e, t, r1)
       | Inr exSize \<Rightarrow>
         (case ConsumeByte r1 of (exFlagsSize, r2) \<Rightarrow>
          if exFlagsSize \<noteq> 1 then (Some ErrInvalidHeader, t, r2)
          else (case ConsumeByte r2 of (exFlags, r3) \<Rightarrow>
            let t1 = t\<lparr>Flags := Flags t OR flagMap_Decode headerExFlags (ucast exFlags)\<rparr>
            in (case exIsUpdate t1 r3 6 of
                  (Some e, t2, r4, c1) \<Rightarrow> (Some e, t2, r4)
                | (None, t2, r4, c1) \<Rightarrow>
                  (case exCRC t2 r4 c1 of
                     (Some e, t3, r5, c2) \<Rightarrow> (Some e, t3, r5)
                   | (None, t3, r5, c2) \<Rightarrow>
                     (case exRestrictions t3 r5 c2 of
                        (Some e, t4, r6, c3) \<Rightarrow> (Some e, t4, r6)
                      | (None, t4, r6, c3) \<Rightarrow>
                          let r7 = (if c3 < unat exSize
                                    then snd (ConsumeBytes (unat exSize - c3) r6) else r6)
                          in (err r7, t4, r7))))))))"

text \<open>
  \<^verbatim>\<open>codec24.Decode\<close>, lines 131-216: the tag header, the global unsynchronization
  and the extended header. The result is the error, the tag and the reader as they are
  when the phase ends.
\<close>

definition decodeHeaders :: "'p Tag \<Rightarrow> reader \<Rightarrow> error option \<times> 'p Tag \<times> reader" where
  "decodeHeaders t r =
     (let r1 = Load 6 r in
      case err r1 of
        Some e \<Rightarrow> (Some e, t, r1)
      | None \<Rightarrow>
        (case ConsumeBytes 10 r1 of (hdr, r2) \<Rightarrow>
         if hdr ! 4 \<noteq> 0 then (Some ErrInvalidTag, t, r2)
         else
           let t1 = t\<lparr>Flags := flagMap_Decode headerFlags (ucast (hdr ! 5))\<rparr>
           in (case decodeSyncSafeUint32 (take 4 (drop 6 hdr)) of
                 Inl e \<Rightarrow> (Some e, t1, r2)
               | Inr sz \<Rightarrow>
                 let t2 = t1\<lparr>Size := uint sz\<rparr>;
                     r3 = Load (nat (Size t2)) r2
                 in (case err r3 of
                       Some e \<Rightarrow> (Some e, t2, r3)
                     | None \<Rightarrow>
                       let r4 = (if Flags t2 AND TagFlagUnsync \<noteq> 0
                                 then (case ConsumeAll r3 of (b, r') \<Rightarrow>
                                         ReplaceBuffer (removeUnsyncCodes b) r')
                                 else r3)
                       in if Flags t2 AND TagFlagExtended \<noteq> 0
                          then decodeExtendedHeader t2 r4
                          else (None, t2, r4)))))"

text \<open>
  The frame loop of \<^verbatim>\<open>codec24.Decode\<close>, lines 226-245. It runs while the buffer is
  not empty; every frame that decodes takes at least its ten header bytes out of the
  buffer, which is why the loop ends.
\<close>

lemma ConsumeBytes_ok:
  assumes "ConsumeBytes n r = (b, r1)" and "err r1 = None"
  shows "err r = None \<and> n \<le> length (buf r) \<and> b = take n (buf r)
         \<and> r1 = r\<lparr>buf := drop n (buf r)\<rparr>"
  using assms by (auto simp: ConsumeBytes_def split: if_splits)

lemma ConsumeIntoNewReader_parent:
  assumes "ConsumeIntoNewReader n r = (sub, r1)"
  shows "length (buf r1) \<le> length (buf r)"
  using assms by (auto simp: ConsumeIntoNewReader_def split: if_splits)

lemma decodeFrame_shrinks:
  assumes "decodeFrame S t r = (Inr f, r')"
  shows "length (buf r') < length (buf r)"
proof -
  obtain fid r1 where c1: "ConsumeBytes 4 r = (fid, r1)"
    by (cases "ConsumeBytes 4 r") auto
  obtain hd6 r2 where c2: "ConsumeBytes 6 r1 = (hd6, r2)"
    by (cases "ConsumeBytes 6 r1") auto
  from assms c1 have e1: "err r1 = None"
    by (auto simp: decodeFrame_def split: option.splits)
  from assms c1 c2 e1 have e2: "err r2 = None"
    by (auto simp: decodeFrame_def split: option.splits if_splits)
  from ConsumeBytes_ok[OF c1 e1] have l1: "length (buf r1) + 4 = length (buf r)"
    by auto
  from ConsumeBytes_ok[OF c2 e2] have l2: "length (buf r2) + 6 = length (buf r1)"
    by auto
  from assms c1 c2 e1 e2 obtain n sub where "ConsumeIntoNewReader n r2 = (sub, r')"
    by (auto simp: decodeFrame_def Let_def
             split: option.splits if_splits sum.splits prod.splits)
  from ConsumeIntoNewReader_parent[OF this] l1 l2 show ?thesis
    by arith
qed

function decodeFrames :: "'p scanner \<Rightarrow> 'p Tag \<Rightarrow> reader \<Rightarrow> error option \<times> 'p Tag \<times> reader" where
  "decodeFrames ScanFrame t r =
     (if Len r > 0
      then (case decodeFrame ScanFrame t r of
              (Inl e, r1) \<Rightarrow>
                if e = errPaddingEncountered
                then (None, t\<lparr>Padding := int (Len r1) + 4\<rparr>, snd (ConsumeAll r1))
                else (Some e, t, r1)
            | (Inr f, r1) \<Rightarrow> decodeFrames ScanFrame (t\<lparr>Frames := Frames t @ [f]\<rparr>) r1)
      else (None, t, r))"
  by pat_completeness auto
termination
  by (relation "measure (\<lambda>(S, t, r). length (buf r))") (auto dest: decodeFrame_shrinks[OF sym])

declare decodeFrames.simps [simp del]

text \<open>
  A run of the frame loop, written as a predicate: starting at reader \<open>r\<close>, the
  calls of \<^verbatim>\<open>decodeFrame\<close> return the frames \<open>fs\<close> one after the other, each on a
  non-empty buffer, and leave the reader \<open>r'\<close>.
\<close>

fun frameRun :: "'p scanner \<Rightarrow> 'p Tag \<Rightarrow> reader \<Rightarrow> 'p Frame list \<Rightarrow> reader \<Rightarrow> bool" where
  "frameRun S t r [] r' = (r' = r)"
| "frameRun S t r (f # fs) r' =
     (0 < Len r \<and>
      (case decodeFrame S t r of
         (Inl e, r1) \<Rightarrow> False
       | (Inr g, r1) \<Rightarrow> g = f \<and> frameRun S t r1 fs r'))"

text \<open>
  \<^verbatim>\<open>codec24.Decode\<close>, lines 131-246: the headers, the CRC validation of lines 218-224
  and the frame loop.
\<close>

definition Decode :: "'p scanner \<Rightarrow> 'p Tag \<Rightarrow> reader \<Rightarrow> error option \<times> 'p Tag \<times> reader" where
  "Decode ScanFrame t r =
     (case decodeHeaders t r of
        (Some e, t3, r5) \<Rightarrow> (Some e, t3, r5)
      | (None, t3, r5) \<Rightarrow>
          if Flags t3 AND TagFlagHasCRC \<noteq> 0 \<and> ChecksumIEEE (Bytes r5) \<noteq> CRC t3
          then (Some ErrFailedCRC, t3, r5)
          else decodeFrames ScanFrame t3 r5)"

section \<open>The v2.4 codec of \<^verbatim>\<open>v24.go\<close>: encoding\<close>

text \<open>
  \<^verbatim>\<open>codec24.encodeFrame\<close>, lines 450-476: the extra header data. The result is the
  offset of the data-length placeholder, if there is one, and the writer.
\<close>

definition encodeExtraHeader :: "FrameHeader \<Rightarrow> writer \<Rightarrow> nat option \<times> writer" where
  "encodeExtraHeader h w =
     (if hFlags h \<noteq> 0
      then
        let w1 = (if hFlags h AND FrameFlagHasGroupID \<noteq> 0
                  then StoreByte (GroupID h)
                         (if GroupID h < 0x80 \<or> GroupID h > 0xf0
                          then w\<lparr>werr := Some ErrInvalidGroupID\<rparr> else w)
                  else w);
            w2 = (if hFlags h AND FrameFlagEncrypted \<noteq> 0
                  then StoreByte (EncryptMethod h)
                         (if EncryptMethod h < 0x80 \<or> EncryptMethod h > 0xf0
                          then w1\<lparr>werr := Some ErrInvalidEncryptMethod\<rparr> else w1)
                  else w1)
        in if hFlags h AND FrameFlagHasDataLength \<noteq> 0
           then (Some (wLen w2), StoreBytes [0, 0, 0, 0] w2)
           else (None, w2)
      else (None, w))"

text \<open>
  \<^verbatim>\<open>codec24.encodeFrame\<close>, lines 430-510. Line 496 calls \<^verbatim>\<open>removeUnsyncCodes\<close>, and so
  does the model.
\<close>

definition encodeFrame ::
  "'p emitter \<Rightarrow> 'p Tag \<Rightarrow> 'p Frame \<Rightarrow> writer \<Rightarrow> error option \<times> writer" where
  "encodeFrame OutputFrame t f w =
     (let idOffset = wLen w;
          w1 = StoreBytes [0, 0, 0, 0] w;
          sizeOffset = wLen w1;
          w2 = StoreBytes [0, 0, 0, 0] w1;
          h = Header f;
          h1 = (if hFlags h AND FrameFlagCompressed \<noteq> 0
                then h\<lparr>hFlags := hFlags h OR FrameFlagHasDataLength\<rparr> else h);
          flags = flagMap_Encode frameFlags (hFlags h1);
          w3 = StoreByte (ucast (drop_bit 8 flags)) w2;
          w4 = StoreByte (ucast flags) w3;
          startOffset = wLen w4
      in case encodeExtraHeader h1 w4 of (dataLengthOffset, w5) \<Rightarrow>
         if hFlags h1 \<noteq> 0 \<and> werr w5 \<noteq> None then (werr w5, w5)
         else
           let payloadOffset = wLen w5
           in (case OutputFrame f of
                 Inl e \<Rightarrow> (Some e, w5)
               | Inr (frameID, payload) \<Rightarrow>
                 let w6 = StoreBytes payload w5;
                     w7 = (case dataLengthOffset of
                             None \<Rightarrow> w6
                           | Some off \<Rightarrow>
                               putSyncSafe off 4 (of_nat (wLen w6 - payloadOffset)) w6);
                     w8 = (if hFlags h1 AND FrameFlagUnsynchronized \<noteq> 0
                              \<and> Flags t AND TagFlagUnsync = 0
                           then (case ConsumeBytesFromOffset startOffset w7 of (b, w') \<Rightarrow>
                                   StoreBytes (removeUnsyncCodes b) w')
                           else w7);
                     w9 = SliceBuffer_put idOffset (take 4 frameID) w8;
                     w10 = putSyncSafe sizeOffset 4 (of_nat (wLen w9 - startOffset)) w9
                 in (werr w10, w10)))"





section \<open>Concrete values for evaluation\<close>

text \<open>
  Modelled from the spec: the payload of the \<open>Unknown\<close> variant is opaque data, a byte
  slice that consumes all remaining bytes of the frame (spec 3 and 4.5). This scanner
  and emitter treat every frame that way; the emitter reports the ID of the frame's
  header. They serve to run the codec on concrete tags.
\<close>

definition ScanFrame_opaque :: "byte list scanner" where
  "ScanFrame_opaque r fid = (case err r of Some e \<Rightarrow> Inl e | None \<Rightarrow> Inr (buf r))"

definition OutputFrame_opaque :: "byte list emitter" where
  "OutputFrame_opaque f = Inr (FrameID (Header f), Payload f)"

definition zeroTag :: "byte list Tag" where
  "zeroTag = \<lparr>Version = 0, Flags = 0, Size = 0, Padding = 0, CRC = 0, Restrictions = 0,
              Frames = []\<rparr>"

definition readerOf :: "byte list \<Rightarrow> reader" where
  "readerOf bs = \<lparr>buf = take 4 bs, src = drop 4 bs, err = None\<rparr>"

definition newWriter :: "nat \<Rightarrow> writer" where
  "newWriter n = \<lparr>wbuf = [], werr = None, sink = \<lparr>written = [], room = n\<rparr>\<rparr>"

text \<open>
  A frame whose \<^verbatim>\<open>Unsynchronized\<close> flag is set and whose payload is the MPEG sync pattern
  \<open>FF E0\<close>.
\<close>

definition frame_FFE0 :: "byte list Frame" where
  "frame_FFE0 =
     \<lparr>Header = \<lparr>FrameID = [0x58, 0x58, 0x58, 0x58], FrameType = ''FrameTypeUnknown'',
                 hSize = 0, hFlags = FrameFlagUnsynchronized, GroupID = 0,
                 EncryptMethod = 0, DataLength = 0\<rparr>,
      Payload = [0xFF, 0xE0]\<rparr>"

section \<open>The bytes that the encoder stages, written as plain functions\<close>

text \<open>
  \<^verbatim>\<open>codec24.Encode\<close> and \<^verbatim>\<open>codec24.encodeFrame\<close> write placeholders and patch them
  later. The functions of this section build the same bytes front to back; the lemmas
  further down show that the encoder stages exactly these bytes. \<open>syncSafeSlot\<close> is
  a placeholder of \<open>n\<close> zero bytes after its back-patch: the sync-safe bytes of the
  value, or the zeros left alone when the value is rejected.
\<close>

definition syncSafeSlot :: "nat \<Rightarrow> uint32 \<Rightarrow> byte list" where
  "syncSafeSlot n v = (case encodeSyncSafeUint32 n v of Inl e \<Rightarrow> replicate n 0 | Inr bs \<Rightarrow> bs)"






section \<open>The byte-field scanner of \<^verbatim>\<open>codec24.go\<close>\<close>


text \<open>
  The \<^verbatim>\<open>state\<close> of a frame scan (lines 124-127), and what \<^verbatim>\<open>scanUint8\<close> does to the
  field it is given: nothing, \<^verbatim>\<open>SetUint\<close> with the byte, or \<^verbatim>\<open>SetUint\<close> with the frame
  type looked up from the frame ID.
\<close>

record state =
  frameID :: gostring
  encoding :: byte








text \<open>
  Tags on the wire for the failure cases: one whose header announces 50 bytes where 11
  follow, and one with two sound frames and a third frame of size 0; and the frames
  \<open>XXXX\<close> and \<open>ZZZZ\<close> as they decode.
\<close>

definition wire_bad_third_frame :: "byte list" where
  "wire_bad_third_frame =
     [0x49, 0x44, 0x33, 4, 0, 0x10, 0, 0, 0, 32]
     @ [0x58, 0x58, 0x58, 0x58, 0, 0, 0, 1, 0, 0, 0x61]
     @ [0x5A, 0x5A, 0x5A, 0x5A, 0, 0, 0, 1, 0, 0, 0x62]
     @ [0x59, 0x59, 0x59, 0x59, 0, 0, 0, 0, 0, 0]"

definition wire_short_body :: "byte list" where
  "wire_short_body =
     [0x49, 0x44, 0x33, 4, 0, 0x10, 0, 0, 0, 50]
     @ [0x58, 0x58, 0x58, 0x58, 0, 0, 0, 1, 0, 0, 0x61]"

definition frame_Z_b :: "byte list Frame" where
  "frame_Z_b =
     \<lparr>Header = \<lparr>FrameID = [0x5A, 0x5A, 0x5A, 0x5A], FrameType = ''FrameTypeUnknown'',
                 hSize = 1, hFlags = 0, GroupID = 0, EncryptMethod = 0, DataLength = 0\<rparr>,
      Payload = [0x62]\<rparr>"

definition frame_X_a :: "byte list Frame" where
  "frame_X_a =
     \<lparr>Header = \<lparr>FrameID = [0x58, 0x58, 0x58, 0x58], FrameType = ''FrameTypeUnknown'',
                 hSize = 1, hFlags = 0, GroupID = 0, EncryptMethod = 0, DataLength = 0\<rparr>,
      Payload = [0x61]\<rparr>"
















section \<open>Tags and frames that the codec carries unchanged\<close>














section \<open>Properties of the byte-level primitives\<close>

subsection \<open>Sync-safe integers\<close>

lemma mask7: "(0x7f::byte) = mask 7"
  by (simp add: mask_eq_exp_minus_1)

lemma syncSafeBytes_length: "length (syncSafeBytes n v) = n"
  by (induction n arbitrary: v) simp_all

lemma syncSafeBytes_top: "\<not> list_ex topBitSet (syncSafeBytes n v)"
proof (induction n arbitrary: v)
  case 0
  show ?case by simp
next
  case (Suc n)
  have "\<not> topBitSet (ucast v AND 0x7f)"
    unfolding topBitSet_def by (simp add: and.assoc)
  with Suc show ?case by (simp add: list_ex_append)
qed

lemma syncSafeBytes_fold:
  "foldl (\<lambda>a x. push_bit 7 a OR ucast x) 0 (syncSafeBytes n v) = take_bit (7 * n) v"
proof (induction n arbitrary: v)
  case 0
  show ?case by simp
next
  case (Suc n)
  have "push_bit 7 (take_bit (7 * n) (drop_bit 7 v)) OR ucast (ucast v AND (mask 7 :: byte))
        = take_bit (7 + 7 * n) v"
  proof (rule bit_word_eqI)
    fix k
    assume "k < LENGTH(32)"
    then show "bit (push_bit 7 (take_bit (7 * n) (drop_bit 7 v))
                 OR ucast (ucast v AND (mask 7 :: byte))) k
        = bit (take_bit (7 + 7 * n) v) k"
      by (cases "k < 7") (auto simp add: bit_simps)
  qed
  with Suc show ?case by (simp add: mask7)
qed

lemma take_bit_small:
  assumes "unat (v::uint32) < 2 ^ k"
  shows "take_bit k v = v"
proof -
  have "unat (take_bit k v) = unat v"
    using assms by (simp add: unsigned_take_bit_eq take_bit_nat_eq_self)
  then show ?thesis by (simp only: word_unat_eq_iff)
qed

lemma decode_syncSafeBytes:
  "decodeSyncSafeUint32 (syncSafeBytes n v) = Inr (take_bit (7 * n) v)"
  by (simp add: decodeSyncSafeUint32_def syncSafeBytes_top syncSafeBytes_fold)

lemma drop_bit_zero_iff: "(drop_bit k (v::uint32) = 0) = (unat v < 2 ^ k)"
proof -
  have "(drop_bit k v = 0) = (take_bit k v = v)"
    by (simp only: take_bit_eq_self_iff_drop_bit_eq_0)
  also have "\<dots> = (unat (take_bit k v) = unat v)"
    by (simp only: word_unat_eq_iff)
  also have "\<dots> = (unat v < 2 ^ k)"
    by (simp add: unsigned_take_bit_eq take_bit_nat_eq_self_iff)
  finally show ?thesis .
qed

lemma encodeSyncSafeUint32_iff:
  "encodeSyncSafeUint32 n v =
     (if unat v < 2 ^ (7 * n) then Inr (syncSafeBytes n v) else Inl ErrBadSync)"
  by (simp add: encodeSyncSafeUint32_def drop_bit_zero_iff)

lemma syncSafeBytes_4:
  "syncSafeBytes 4 v =
     [ucast (drop_bit 21 v) AND 0x7f, ucast (drop_bit 14 v) AND 0x7f,
      ucast (drop_bit 7 v) AND 0x7f, ucast v AND 0x7f]"
  by (simp add: eval_nat_numeral drop_bit_Suc[symmetric] flip: drop_bit_eq_div)

lemma syncsafe_fits:
  assumes "unat v < 2 ^ (7 * n)"
  shows "\<exists>bs. encodeSyncSafeUint32 n v = Inr bs \<and> length bs = n
            \<and> decodeSyncSafeUint32 bs = Inr v"
  using assms take_bit_small[OF assms]
  by (simp add: encodeSyncSafeUint32_iff decode_syncSafeBytes syncSafeBytes_length)

lemma decodeSyncSafeUint32_four:
  "decodeSyncSafeUint32 [b0, b1, b2, b3] =
     (if topBitSet b0 \<or> topBitSet b1 \<or> topBitSet b2 \<or> topBitSet b3 then Inl ErrBadSync
      else Inr (push_bit 21 (ucast b0) OR push_bit 14 (ucast b1)
                OR push_bit 7 (ucast b2) OR ucast b3))"
  by (simp add: decodeSyncSafeUint32_def push_bit_or or.assoc)

text \<open>
  C2 (sync-safe roundtrip). For every value below \<open>2^28\<close> the 4-byte encoder succeeds
  and decoding its four bytes gives the value back; the encoder returns an error for
  every value from \<open>2^28\<close> on; the decoder returns \<open>ErrBadSync\<close> (the spec's
  \<open>InvalidSyncCode\<close>) for every 4-byte input with a top bit set and otherwise
  \<open>(b0<<21)|(b1<<14)|(b2<<7)|b3\<close>.
\<close>

theorem syncsafe_roundtrip:
  "(\<forall>v. unat v < 2 ^ 28 \<longrightarrow>
       (\<exists>bs. encodeSyncSafeUint32 4 v = Inr bs \<and> length bs = 4
             \<and> decodeSyncSafeUint32 bs = Inr v)) \<and>
   (\<forall>v. 2 ^ 28 \<le> unat v \<longrightarrow> encodeSyncSafeUint32 4 v = Inl ErrBadSync) \<and>
   (\<forall>b0 b1 b2 b3. decodeSyncSafeUint32 [b0, b1, b2, b3] =
       (if topBitSet b0 \<or> topBitSet b1 \<or> topBitSet b2 \<or> topBitSet b3 then Inl ErrBadSync
        else Inr (push_bit 21 (ucast b0) OR push_bit 14 (ucast b1)
                  OR push_bit 7 (ucast b2) OR ucast b3)))"
  using syncsafe_fits[where n=4]
  by (simp add: decodeSyncSafeUint32_four encodeSyncSafeUint32_iff)

theorem syncsafe_roundtrip_witness:
  "unat (1000::uint32) < 2 ^ 28 \<and>
   (\<exists>bs. encodeSyncSafeUint32 4 1000 = Inr bs \<and> length bs = 4
         \<and> decodeSyncSafeUint32 bs = Inr 1000) \<and>
   2 ^ 28 \<le> unat (0x10000000::uint32) \<and>
   encodeSyncSafeUint32 4 0x10000000 = Inl ErrBadSync \<and>
   decodeSyncSafeUint32 [0, 0x80, 0, 0] = Inl ErrBadSync \<and>
   decodeSyncSafeUint32 [1, 2, 3, 4] = Inr 0x208184"
proof -
  have a: "unat (1000::uint32) < 2 ^ 28" by simp
  have b: "2 ^ 28 \<le> unat (0x10000000::uint32)" by simp
  from syncsafe_roundtrip a
  have 1: "\<exists>bs. encodeSyncSafeUint32 4 1000 = Inr bs \<and> length bs = 4
               \<and> decodeSyncSafeUint32 bs = Inr 1000"
    by blast
  from syncsafe_roundtrip b
  have 2: "encodeSyncSafeUint32 4 0x10000000 = Inl ErrBadSync"
    by blast
  from syncsafe_roundtrip
  have e: "decodeSyncSafeUint32 [b0, b1, b2, b3] =
       (if topBitSet b0 \<or> topBitSet b1 \<or> topBitSet b2 \<or> topBitSet b3 then Inl ErrBadSync
        else Inr (push_bit 21 (ucast b0) OR push_bit 14 (ucast b1)
                  OR push_bit 7 (ucast b2) OR ucast b3))" for b0 b1 b2 b3
    by blast
  have 3: "decodeSyncSafeUint32 [0, 0x80, 0, 0] = Inl ErrBadSync"
    by (simp add: e topBitSet_def)
  have 4: "decodeSyncSafeUint32 [1, 2, 3, 4] = Inr 0x208184"
    by (simp add: e topBitSet_def)
  from a b 1 2 3 4 show ?thesis by blast
qed

subsection \<open>Unsynchronization\<close>

lemma topBitSet_bit: "topBitSet y = bit y 7"
proof -
  have e: "(0x80::byte) = push_bit 7 1" by simp
  show ?thesis unfolding topBitSet_def e
    by (simp only: bit_iff_and_push_bit_not_eq_0)
qed

lemma topBitSet_ge: "topBitSet y = (0x80 \<le> y)"
proof -
  have "(y < 2 ^ 7) = (y AND mask 7 = y)"
    by (rule mask_eq_iff_w2p[symmetric]) (simp add: word_size)
  also have "\<dots> = (\<not> bit y 7)"
  proof
    assume "y AND mask 7 = y"
    then have "bit y 7 = bit (y AND mask 7) 7" by simp
    then show "\<not> bit y 7" by (simp add: bit_simps)
  next
    assume n: "\<not> bit y 7"
    show "y AND mask 7 = y"
    proof (rule bit_word_eqI)
      fix k
      assume "k < LENGTH(8)"
      with n show "bit (y AND mask 7) k = bit y k"
        by (cases "k = 7") (auto simp: bit_simps)
    qed
  qed
  finally have "(y < 0x80) = (\<not> topBitSet y)" by (simp add: topBitSet_bit)
  then show ?thesis by (simp add: not_less[symmetric])
qed

lemma addUnsyncCodes_head: "\<exists>t. addUnsyncCodes (x # xs) = x # t"
  by (cases xs) auto

lemma addUnsyncCodes_no_sync: "\<not> hasSyncPattern (addUnsyncCodes s)"
proof (induction s rule: addUnsyncCodes.induct)
  case 1
  show ?case by simp
next
  case (2 x)
  show ?case by simp
next
  case (3 x y rest)
  obtain t where t: "addUnsyncCodes (y # rest) = y # t"
    using addUnsyncCodes_head by blast
  with 3 show ?case by (auto simp: topBitSet_ge)
qed








section \<open>Properties of the stream-level dispatcher\<close>

lemma byte_between_2_and_4:
  assumes "\<not> (x < 2 \<or> 4 < x)"
  shows "x = 2 \<or> x = 3 \<or> x = (4::byte)"
proof -
  from assms have "2 \<le> unat x" "unat x \<le> 4"
    by (simp_all add: word_less_nat_alt not_less)
  then have "unat x = 2 \<or> unat x = 3 \<or> unat x = 4" by arith
  then show ?thesis by (simp add: word_unat_eq_iff)
qed

lemma getCodec_Panic_version:
  assumes "getCodec E x = Panic m"
  shows "x < 2 \<or> 4 < x"
  using byte_between_2_and_4[of x] assms by (auto simp: getCodec_def split: if_splits)

text \<open>
  C9. \<^verbatim>\<open>Tag.ReadFrom\<close> makes one \<^verbatim>\<open>Read\<close> call for the 10-byte header; whenever that
  call delivers fewer than 10 bytes, \<^verbatim>\<open>ReadFrom\<close> returns \<open>ErrInvalidTag\<close> (with the
  short count, the tag untouched), whatever the source would deliver on later calls.
\<close>

theorem ReadFrom_short_first_read:
  assumes "Read r 10 = (d, e, r1)" and "length d < 10"
  shows "ReadFrom E t r = Return (int (length d), Some ErrInvalidTag, t)"
  using assms by (simp add: ReadFrom_def Let_def)

text \<open>
  Witness: a source that holds the complete header of an empty v2.4 tag but delivers it
  in two pieces is refused, while the same ten bytes in one delivery are accepted.
\<close>

theorem ReadFrom_short_first_read_witness:
  "Read [([0x49, 0x44, 0x33, 4, 0], None), ([0, 0, 0, 0, 0], None)] 10
      = ([0x49, 0x44, 0x33, 4, 0], None, [([0, 0, 0, 0, 0], None)])
   \<and> length [0x49, 0x44, 0x33, 4, 0 :: byte] < 10
   \<and> ReadFrom nullEnv zeroTag_id3 [([0x49, 0x44, 0x33, 4, 0], None), ([0, 0, 0, 0, 0], None)]
      = Return (5, Some ErrInvalidTag, zeroTag_id3)
   \<and> ReadFrom nullEnv zeroTag_id3 [([0x49, 0x44, 0x33, 4, 0, 0, 0, 0, 0, 0], None)]
      = Return (10, None, zeroTag_id3\<lparr>tag_Version := 4\<rparr>)"
proof -
  have a: "Read [([0x49, 0x44, 0x33, 4, 0], None), ([0, 0, 0, 0, 0], None)] 10
      = ([0x49, 0x44, 0x33, 4, 0], None, [([0, 0, 0, 0, 0], None)])"
    by simp
  have b: "length [0x49, 0x44, 0x33, 4, 0 :: byte] < 10"
    by simp
  have c: "ReadFrom nullEnv zeroTag_id3 [([0x49, 0x44, 0x33, 4, 0, 0, 0, 0, 0, 0], None)]
      = Return (10, None, zeroTag_id3\<lparr>tag_Version := 4\<rparr>)"
    by (simp add: ReadFrom_def ID3_def decodeSyncSafeUint32_def topBitSet_def getCodec_def
        nullEnv_def nullCodec_def zeroTag_id3_def TagFlagUnsync_id3_def)
  from ReadFrom_short_first_read[OF a b, of nullEnv zeroTag_id3] a b c
  show ?thesis by simp
qed

text \<open>
  C10. \<^verbatim>\<open>Tag.ReadFrom\<close> never runs into the panic of \<^verbatim>\<open>getCodec\<close>: it always
  returns, and for a header whose version byte is outside 2..4 it returns
  \<open>ErrInvalidVersion\<close> before a codec is selected. \<^verbatim>\<open>Tag.WriteTo\<close> calls
  \<^verbatim>\<open>getCodec\<close> on the tag's version unchecked and panics with ``invalid codec version''
  when the version is not 2, 3 or 4.
\<close>

theorem getCodec_panic_reachability:
  "(\<exists>res. ReadFrom E t r = Return res)
   \<and> (Read r 10 = (d, None, r1) \<and> length d = 10 \<and> take 3 d = ID3 \<and> (d ! 3 < 2 \<or> 4 < d ! 3)
        \<longrightarrow> ReadFrom E t r = Return (10, Some ErrInvalidVersion, t\<lparr>tag_Version := d ! 3\<rparr>))
   \<and> (tag_Version t' \<noteq> 2 \<and> tag_Version t' \<noteq> 3 \<and> tag_Version t' \<noteq> 4
        \<longrightarrow> WriteTo E t' w = Panic ''invalid codec version'')"
proof (intro conjI)
  show "\<exists>res. ReadFrom E t r = Return res"
    by (auto simp: ReadFrom_def Let_def split: prod.splits sum.splits outcome.splits
        dest: getCodec_Panic_version)
next
  show "Read r 10 = (d, None, r1) \<and> length d = 10 \<and> take 3 d = ID3 \<and> (d ! 3 < 2 \<or> 4 < d ! 3)
        \<longrightarrow> ReadFrom E t r = Return (10, Some ErrInvalidVersion, t\<lparr>tag_Version := d ! 3\<rparr>)"
    by (auto simp add: ReadFrom_def Let_def)
next
  show "tag_Version t' \<noteq> 2 \<and> tag_Version t' \<noteq> 3 \<and> tag_Version t' \<noteq> 4
        \<longrightarrow> WriteTo E t' w = Panic ''invalid codec version''"
    by (simp add: WriteTo_def getCodec_def)
qed

theorem getCodec_panic_reachability_witness:
  "(\<exists>res. ReadFrom nullEnv zeroTag_id3 [([0x49, 0x44, 0x33, 9, 0, 0, 0, 0, 0, 0], None)]
            = Return res)
   \<and> ReadFrom nullEnv zeroTag_id3 [([0x49, 0x44, 0x33, 9, 0, 0, 0, 0, 0, 0], None)]
       = Return (10, Some ErrInvalidVersion, zeroTag_id3\<lparr>tag_Version := 9\<rparr>)
   \<and> WriteTo nullEnv (zeroTag_id3\<lparr>tag_Version := 9\<rparr>) \<lparr>written = [], room = 100\<rparr>
       = Panic ''invalid codec version''"
proof -
  let ?d = "[0x49, 0x44, 0x33, 9, 0, 0, 0, 0, 0, 0] :: byte list"
  have a: "Read [(?d, None)] 10 = (?d, None, []) \<and> length ?d = 10 \<and> take 3 ?d = ID3
           \<and> (?d ! 3 < 2 \<or> 4 < ?d ! 3)"
    by (simp add: ID3_def)
  have b: "tag_Version (zeroTag_id3\<lparr>tag_Version := 9\<rparr>) \<noteq> 2
           \<and> tag_Version (zeroTag_id3\<lparr>tag_Version := 9\<rparr>) \<noteq> 3
           \<and> tag_Version (zeroTag_id3\<lparr>tag_Version := 9\<rparr>) \<noteq> 4"
    by simp
  from getCodec_panic_reachability[of nullEnv zeroTag_id3 "[(?d, None)]" ?d "[]"
        "zeroTag_id3\<lparr>tag_Version := 9\<rparr>" "\<lparr>written = [], room = 100\<rparr>"]
    a b
  show ?thesis by simp
qed

section \<open>Flag maps\<close>

lemma and_bit_test: "(x AND push_bit k 1 \<noteq> 0) = bit (x::uint32) k"
  by (simp only: bit_iff_and_push_bit_not_eq_0)

lemma and_bit_test0: "(x AND push_bit k 1 = 0) = (\<not> bit (x::uint32) k)"
  using and_bit_test[of x k] by blast




lemma headerFlags_dec: "flagMap_Decode headerFlags x =
   push_bit 0 (of_bool (bit x 7)) OR push_bit 1 (of_bool (bit x 6)) OR push_bit 2 (of_bool (bit x 5)) OR push_bit 3 (of_bool (bit x 4))"
  unfolding flagMap_Decode_def headerFlags_def TagFlagUnsync_def TagFlagExtended_def TagFlagExperimental_def TagFlagFooter_def
  using and_bit_test[of x 7] and_bit_test[of x 6] and_bit_test[of x 5] and_bit_test[of x 4]
  by (simp add: or.assoc)




lemma headerExFlags_dec: "flagMap_Decode headerExFlags x =
   push_bit 4 (of_bool (bit x 6)) OR push_bit 5 (of_bool (bit x 5)) OR push_bit 6 (of_bool (bit x 4))"
  unfolding flagMap_Decode_def headerExFlags_def TagFlagIsUpdate_def TagFlagHasCRC_def TagFlagHasRestrictions_def
  using and_bit_test[of x 6] and_bit_test[of x 5] and_bit_test[of x 4]
  by (simp add: or.assoc)








section \<open>The encoder stages the bytes of the plain functions\<close>



lemma putSyncSafe_wbuf:
  "wbuf (putSyncSafe off n v w) =
     (case encodeSyncSafeUint32 n v of
        Inl e \<Rightarrow> wbuf w
      | Inr bs \<Rightarrow> take off (wbuf w) @ bs @ drop (off + n) (wbuf w))"
  by (simp add: putSyncSafe_def SliceBuffer_put_def encodeSyncSafeUint32_def syncSafeBytes_length)

lemma putSyncSafe_werr: "werr (putSyncSafe off n v w) = werr w"
  by (simp add: putSyncSafe_def SliceBuffer_put_def split: sum.splits)

lemma putSyncSafe_sink: "sink (putSyncSafe off n v w) = sink w"
  by (simp add: putSyncSafe_def SliceBuffer_put_def split: sum.splits)

lemma putSyncSafe_at:
  assumes "wbuf w = A @ replicate n 0 @ B" and "off = length A"
  shows "putSyncSafe off n v w = w\<lparr>wbuf := A @ syncSafeSlot n v @ B\<rparr>"
  using assms
  by (simp add: putSyncSafe_def SliceBuffer_put_def syncSafeSlot_def encodeSyncSafeUint32_def
      syncSafeBytes_length)






lemma word_not_less_iff: "(\<not> (x < a \<or> b < x)) = (a \<le> x \<and> x \<le> (b::byte))"
  by auto











lemma putSyncSafe_at5:
  assumes "wbuf w = A @ replicate 5 0 @ B" and "off = length A"
  shows "putSyncSafe off 5 v w = w\<lparr>wbuf := A @ syncSafeSlot 5 v @ B\<rparr>"
  using assms by (rule putSyncSafe_at)















section \<open>The decoder reads the bytes of the plain functions back\<close>
























section \<open>Properties of the v2.4 codec\<close>

subsection \<open>Frame-level unsynchronization on encode\<close>

text \<open>
  C6 says that \<^verbatim>\<open>encodeFrame\<close> applies \<^verbatim>\<open>addUnsyncCodes\<close> to the payload region of a
  frame whose \<^verbatim>\<open>Unsynchronized\<close> flag is set while the tag's \<^verbatim>\<open>Unsync\<close> flag is clear.
  The source calls \<^verbatim>\<open>removeUnsyncCodes\<close> there (line 496). Evaluated on a frame with the
  payload \<open>FF E0\<close>: the payload goes out as \<open>FF E0\<close> with size 2, where
  \<^verbatim>\<open>addUnsyncCodes\<close> gives \<open>FF 00 E0\<close>.
\<close>

theorem encodeFrame_unsync_evaluated:
  "hFlags (Header frame_FFE0) AND FrameFlagUnsynchronized \<noteq> 0
   \<and> Flags zeroTag AND TagFlagUnsync = 0
   \<and> encodeFrame OutputFrame_opaque zeroTag frame_FFE0 (newWriter 100)
       = (None, (newWriter 100)\<lparr>wbuf := [0x58, 0x58, 0x58, 0x58, 0, 0, 0, 2, 0, 2, 0xFF, 0xE0]\<rparr>)
   \<and> addUnsyncCodes [0xFF, 0xE0] = [0xFF, 0x00, 0xE0]
   \<and> removeUnsyncCodes [0xFF, 0xE0] = [0xFF, 0xE0]"
  by code_simp

subsection \<open>Padding\<close>




subsection \<open>What a failed decode leaves on the tag\<close>

lemma decodeFrame_Flags:
  assumes "Flags t = Flags t'"
  shows "decodeFrame S t r = decodeFrame S t' r"
  unfolding decodeFrame_def assms by (rule refl)

lemma frameRun_Flags:
  "Flags t = Flags t' \<Longrightarrow> frameRun S t r fs r' = frameRun S t' r fs r'"
proof (induction fs arbitrary: r)
  case Nil
  show ?case by simp
next
  case (Cons f fs)
  from Cons.prems have "decodeFrame S t r = decodeFrame S t' r" by (rule decodeFrame_Flags)
  with Cons show ?case by (simp split: prod.splits sum.splits)
qed

lemma decodeFrames_error_run:
  "decodeFrames S t r = (Some e, t', r') \<Longrightarrow>
     \<exists>fs rk. frameRun S t r fs rk \<and> 0 < Len rk \<and> decodeFrame S t rk = (Inl e, r')
             \<and> e \<noteq> errPaddingEncountered \<and> t' = t\<lparr>Frames := Frames t @ fs\<rparr>"
proof (induction S t r rule: decodeFrames.induct)
  case (1 S t r)
  show ?case
  proof (cases "Len r > 0")
    case False
    with 1(2) show ?thesis by (subst (asm) decodeFrames.simps) simp
  next
    case True
    obtain res r1 where d: "decodeFrame S t r = (res, r1)" by (cases "decodeFrame S t r") auto
    show ?thesis
    proof (cases res)
      case (Inl e1)
      with 1(2) True d have "t' = t \<and> e1 = e \<and> r1 = r' \<and> e \<noteq> errPaddingEncountered"
        by (subst (asm) decodeFrames.simps) (auto split: if_splits)
      with True d Inl show ?thesis
        by (intro exI[of _ "[]"] exI[of _ r]) simp
    next
      case (Inr f)
      let ?t1 = "t\<lparr>Frames := Frames t @ [f]\<rparr>"
      from Inr 1(2) True d have "decodeFrames S ?t1 r1 = (Some e, t', r')"
        by (subst (asm) decodeFrames.simps) simp
      from 1(1)[OF True d[symmetric] Inr this] obtain fs rk where
        a: "frameRun S ?t1 r1 fs rk" "0 < Len rk" "decodeFrame S ?t1 rk = (Inl e, r')"
           "e \<noteq> errPaddingEncountered" "t' = ?t1\<lparr>Frames := Frames ?t1 @ fs\<rparr>"
        by blast
      have fl: "Flags ?t1 = Flags t" by simp
      from a(1) have b: "frameRun S t r1 fs rk" by (simp add: frameRun_Flags[OF fl])
      from a(3) have c: "decodeFrame S t rk = (Inl e, r')" by (simp add: decodeFrame_Flags[OF fl])
      from True d Inr b have "frameRun S t r (f # fs) rk" by simp
      with a(2) c a(4) a(5) show ?thesis
        by (intro exI[of _ "f # fs"] exI[of _ rk]) simp
    qed
  qed
qed

lemma exIsUpdate_fields:
  assumes "exIsUpdate t r c = (eo, t', r', c')"
  shows "t' = t"
  using assms by (auto simp add: exIsUpdate_def split: if_splits prod.splits)

lemma exCRC_fields:
  assumes "exCRC t r c = (eo, t', r', c')"
  shows "\<exists>v. t' = t\<lparr>CRC := v\<rparr>"
proof (cases "Flags t AND TagFlagHasCRC \<noteq> 0")
  case False
  with assms have "t' = t" by (simp add: exCRC_def)
  then have "t' = t\<lparr>CRC := CRC t\<rparr>" by simp
  then show ?thesis by blast
next
  case True
  obtain data r1 where c: "ConsumeBytes 6 r = (data, r1)" by (cases "ConsumeBytes 6 r")
  show ?thesis
  proof (cases "data ! 0 \<noteq> 5")
    case True
    with assms \<open>Flags t AND TagFlagHasCRC \<noteq> 0\<close> c have "t' = t" by (simp add: exCRC_def)
    then have "t' = t\<lparr>CRC := CRC t\<rparr>" by simp
    then show ?thesis by blast
  next
    case False
    with assms \<open>Flags t AND TagFlagHasCRC \<noteq> 0\<close> c show ?thesis
      by (cases "decodeSyncSafeUint32 (drop 1 data)") (auto simp add: exCRC_def)
  qed
qed

lemma exRestrictions_fields:
  assumes "exRestrictions t r c = (eo, t', r', c')"
  shows "\<exists>v. t' = t\<lparr>Restrictions := v\<rparr>"
proof (cases "Flags t AND TagFlagHasRestrictions \<noteq> 0")
  case False
  with assms have "t' = t" by (simp add: exRestrictions_def)
  then have "t' = t\<lparr>Restrictions := Restrictions t\<rparr>" by simp
  then show ?thesis by blast
next
  case True
  obtain b r1 where c: "ConsumeByte r = (b, r1)" by (cases "ConsumeByte r")
  obtain v r2 where d: "ConsumeByte r1 = (v, r2)" by (cases "ConsumeByte r1")
  show ?thesis
  proof (cases "b \<noteq> 1")
    case True
    with assms \<open>Flags t AND TagFlagHasRestrictions \<noteq> 0\<close> c have "t' = t"
      by (simp add: exRestrictions_def)
    then have "t' = t\<lparr>Restrictions := Restrictions t\<rparr>" by simp
    then show ?thesis by blast
  next
    case False
    with assms \<open>Flags t AND TagFlagHasRestrictions \<noteq> 0\<close> c d show ?thesis
      by (auto simp add: exRestrictions_def)
  qed
qed

lemma headerExFlags_high:
  "(F OR flagMap_Decode headerExFlags x) AND 15 = F AND (15::uint32)"
proof -
  have m: "(15::uint32) = mask 4" by (simp add: mask_eq_exp_minus_1)
  show ?thesis
    unfolding headerExFlags_dec m
    by (rule bit_word_eqI) (auto simp add: bit_simps)
qed

lemma headerFlags_low:
  "flagMap_Decode headerFlags x AND 15 = flagMap_Decode headerFlags x"
proof -
  have m: "(15::uint32) = mask 4" by (simp add: mask_eq_exp_minus_1)
  show ?thesis
    unfolding headerFlags_dec m
    by (rule bit_word_eqI) (auto simp add: bit_simps)
qed

lemma decodeExtendedHeader_fields:
  assumes "decodeExtendedHeader t r = (eo, t', r')"
  shows "Frames t' = Frames t \<and> Version t' = Version t \<and> Padding t' = Padding t
         \<and> Size t' = Size t \<and> Flags t' AND 15 = Flags t AND 15"
proof -
  obtain b r1 where c1: "ConsumeBytes 4 r = (b, r1)" by (cases "ConsumeBytes 4 r")
  show ?thesis
  proof (cases "decodeSyncSafeUint32 b")
    case (Inl e)
    with assms c1 have "t' = t" by (simp add: decodeExtendedHeader_def)
    then show ?thesis by simp
  next
    case (Inr exSize)
    obtain fs r2 where c2: "ConsumeByte r1 = (fs, r2)" by (cases "ConsumeByte r1")
    show ?thesis
    proof (cases "fs \<noteq> 1")
      case True
      with assms c1 c2 Inr have "t' = t" by (simp add: decodeExtendedHeader_def)
      then show ?thesis by simp
    next
      case False
      obtain exFlags r3 where c3: "ConsumeByte r2 = (exFlags, r3)" by (cases "ConsumeByte r2")
      define t1 where "t1 = t\<lparr>Flags := Flags t OR flagMap_Decode headerExFlags (ucast exFlags)\<rparr>"
      obtain e1 t2 r4 k1 where x1: "exIsUpdate t1 r3 6 = (e1, t2, r4, k1)"
        by (cases "exIsUpdate t1 r3 6") auto
      obtain e2 t3 r5 k2 where x2: "exCRC t2 r4 k1 = (e2, t3, r5, k2)"
        by (cases "exCRC t2 r4 k1") auto
      obtain e3 t4 r6 k3 where x3: "exRestrictions t3 r5 k2 = (e3, t4, r6, k3)"
        by (cases "exRestrictions t3 r5 k2") auto
      from exIsUpdate_fields[OF x1] have f2: "t2 = t1" .
      from exCRC_fields[OF x2] obtain c where f3: "t3 = t2\<lparr>CRC := c\<rparr>" by blast
      from exRestrictions_fields[OF x3] obtain v where f4: "t4 = t3\<lparr>Restrictions := v\<rparr>" by blast
      have "decodeExtendedHeader t r =
          (case exIsUpdate t1 r3 6 of
             (Some e, t2, r4, c1) \<Rightarrow> (Some e, t2, r4)
           | (None, t2, r4, c1) \<Rightarrow>
             (case exCRC t2 r4 c1 of
                (Some e, t3, r5, c2) \<Rightarrow> (Some e, t3, r5)
              | (None, t3, r5, c2) \<Rightarrow>
                (case exRestrictions t3 r5 c2 of
                   (Some e, t4, r6, c3) \<Rightarrow> (Some e, t4, r6)
                 | (None, t4, r6, c3) \<Rightarrow>
                     let r7 = (if c3 < unat exSize
                               then snd (ConsumeBytes (unat exSize - c3) r6) else r6)
                     in (err r7, t4, r7))))"
        using c1 c2 c3 Inr False by (simp add: decodeExtendedHeader_def t1_def)
      with assms have "t' = t2 \<or> t' = t3 \<or> t' = t4"
        unfolding x1 prod.case
        by (cases e1; cases e2; cases e3) (auto simp add: x2 x3 Let_def)
      then have "t' = t1\<lparr>CRC := CRC t1, Restrictions := Restrictions t1\<rparr>
          \<or> t' = t1\<lparr>CRC := c, Restrictions := Restrictions t1\<rparr>
          \<or> t' = t1\<lparr>CRC := c, Restrictions := v\<rparr>"
        using f2 f3 f4 by auto
      then show ?thesis unfolding t1_def by (auto simp add: headerExFlags_high)
    qed
  qed
qed

lemma decodeHeaders_fields:
  assumes d: "decodeHeaders t r = (eo, t3, r5)"
  defines "hdr \<equiv> fst (ConsumeBytes 10 (Load 6 r))"
  shows "Frames t3 = Frames t \<and> Version t3 = Version t \<and> Padding t3 = Padding t
     \<and> (err (Load 6 r) \<noteq> None \<or> hdr ! 4 \<noteq> 0 \<longrightarrow> t3 = t)
     \<and> (err (Load 6 r) = None \<and> hdr ! 4 = 0
          \<longrightarrow> Flags t3 AND 15 = flagMap_Decode headerFlags (ucast (hdr ! 5)))
     \<and> (\<forall>sz. err (Load 6 r) = None \<and> hdr ! 4 = 0
               \<and> decodeSyncSafeUint32 (take 4 (drop 6 hdr)) = Inr sz
          \<longrightarrow> Size t3 = uint sz)"
proof (cases "err (Load 6 r)")
  case (Some e)
  with d have "t3 = t" by (simp add: decodeHeaders_def)
  with Some show ?thesis by simp
next
  case None
  obtain h r2 where c: "ConsumeBytes 10 (Load 6 r) = (h, r2)" by (cases "ConsumeBytes 10 (Load 6 r)")
  then have hh: "hdr = h" by (simp add: hdr_def)
  show ?thesis
  proof (cases "h ! 4 \<noteq> 0")
    case True
    with d None c have "t3 = t" by (simp add: decodeHeaders_def)
    with True hh show ?thesis by simp
  next
    case False
    define t1 where "t1 = t\<lparr>Flags := flagMap_Decode headerFlags (ucast (h ! 5))\<rparr>"
    show ?thesis
    proof (cases "decodeSyncSafeUint32 (take 4 (drop 6 h))")
      case (Inl e)
      with d None c False have "t3 = t1" by (simp add: decodeHeaders_def t1_def)
      with None False hh Inl show ?thesis by (simp add: t1_def headerFlags_low)
    next
      case (Inr sz)
      define t2 where "t2 = t1\<lparr>Size := uint sz\<rparr>"
      define r3 where "r3 = Load (nat (Size t2)) r2"
      define r4 where "r4 = (if Flags t2 AND TagFlagUnsync \<noteq> 0
                                 then (case ConsumeAll r3 of (b, r') \<Rightarrow>
                                         ReplaceBuffer (removeUnsyncCodes b) r')
                                 else r3)"
      have eq: "decodeHeaders t r =
          (case err r3 of
             Some e \<Rightarrow> (Some e, t2, r3)
           | None \<Rightarrow> if Flags t2 AND TagFlagExtended \<noteq> 0
                     then decodeExtendedHeader t2 r4 else (None, t2, r4))"
        using None c False Inr
        by (simp add: decodeHeaders_def Let_def t1_def t2_def r3_def r4_def cong: option.case_cong if_cong)
      have "Frames t3 = Frames t2 \<and> Version t3 = Version t2 \<and> Padding t3 = Padding t2
         \<and> Size t3 = Size t2 \<and> Flags t3 AND 15 = Flags t2 AND 15"
      proof (cases "err r3 = None \<and> Flags t2 AND TagFlagExtended \<noteq> 0")
        case True
        with d eq have "decodeExtendedHeader t2 r4 = (eo, t3, r5)" by simp
        then show ?thesis by (rule decodeExtendedHeader_fields)
      next
        case False
        with d eq have "t3 = t2" by (auto split: option.splits)
        then show ?thesis by simp
      qed
      with None False hh Inr show ?thesis
        by (simp add: t2_def t1_def headerFlags_low)
    qed
  qed
qed

lemma frameRun_unique:
  assumes "frameRun S t r fs rk" and "decodeFrame S t rk = (Inl e, r')"
    and "frameRun S t r fs' rk'" and "decodeFrame S t rk' = (Inl e', r'')"
  shows "fs' = fs \<and> rk' = rk"
  using assms
proof (induction fs arbitrary: r fs')
  case Nil
  then show ?case by (cases fs') auto
next
  case (Cons f fs)
  show ?case
  proof (cases fs')
    case Nil
    with Cons.prems show ?thesis by auto
  next
    case (Cons g gs)
    obtain res r1 where d: "decodeFrame S t r = (res, r1)" by (cases "decodeFrame S t r")
    from Cons.prems(1) d obtain "res = Inr f" "frameRun S t r1 fs rk"
      by (cases res) auto
    moreover from Cons.prems(3) Cons d obtain "res = Inr g" "frameRun S t r1 gs rk'"
      by (cases res) auto
    ultimately show ?thesis
      using Cons.IH[of r1 gs] Cons.prems(2,4) Cons by auto
  qed
qed

text \<open>
  C5, as stated: after a decode that fails with a structural error the caller's tag
  carries no partial results. \<^verbatim>\<open>codec24.Decode\<close> writes through its \<^verbatim>\<open>*Tag\<close> as it goes.
  On a tag whose second frame has size 0 it returns \<open>ErrInvalidFrameHeader\<close>, and the
  tag holds the header's flags and size and the first frame.
\<close>

theorem Decode_partial_tag_counterexample:
  "Decode ScanFrame_opaque zeroTag
     (readerOf ([0x49, 0x44, 0x33, 4, 0, 0x10, 0, 0, 0, 21]
                @ [0x58, 0x58, 0x58, 0x58, 0, 0, 0, 1, 0, 0, 0x61]
                @ [0x59, 0x59, 0x59, 0x59, 0, 0, 0, 0, 0, 0]))
   = (Some ErrInvalidFrameHeader,
      zeroTag\<lparr>Flags := TagFlagFooter, Size := 21,
              Frames := [\<lparr>Header = \<lparr>FrameID = [0x58, 0x58, 0x58, 0x58],
                                      FrameType = ''FrameTypeUnknown'', hSize = 1, hFlags = 0,
                                      GroupID = 0, EncryptMethod = 0, DataLength = 0\<rparr>,
                           Payload = [0x61]\<rparr>]\<rparr>,
      \<lparr>buf = [], src = [], err = None\<rparr>)"
  by code_simp

text \<open>
  C5, amended: a structural error aborts the decode where it occurs and is returned, and
  nothing after it is decoded; the caller's tag is written in place and keeps what was
  decoded before the error. The header phase never touches the frames, the padding or
  the version; it leaves the tag as it was when the ten header bytes cannot be loaded
  or the revision byte is not zero; from then on the tag has the header's flags (its
  four low flag bits are those of the flag byte) and, once the size field decodes, the
  header's size, whatever fails later. A header error and a CRC mismatch return that
  tag. When a frame fails, the tag is the one of the headers with its frame list
  extended by exactly the frames that the successive calls of \<^verbatim>\<open>decodeFrame\<close> returned
  before the failing call, in that order; the error is the one of the failing call and
  the reader is as that call left it.
\<close>

theorem Decode_failure_leaves_partial_tag:
  "(decodeHeaders t r = (eo, t3, r5) \<longrightarrow>
      Frames t3 = Frames t \<and> Version t3 = Version t \<and> Padding t3 = Padding t
      \<and> (err (Load 6 r) \<noteq> None \<or> fst (ConsumeBytes 10 (Load 6 r)) ! 4 \<noteq> 0 \<longrightarrow> t3 = t)
      \<and> (err (Load 6 r) = None \<and> fst (ConsumeBytes 10 (Load 6 r)) ! 4 = 0
           \<longrightarrow> Flags t3 AND 15
                 = flagMap_Decode headerFlags (ucast (fst (ConsumeBytes 10 (Load 6 r)) ! 5)))
      \<and> (\<forall>sz. err (Load 6 r) = None \<and> fst (ConsumeBytes 10 (Load 6 r)) ! 4 = 0
                \<and> decodeSyncSafeUint32 (take 4 (drop 6 (fst (ConsumeBytes 10 (Load 6 r))))) = Inr sz
           \<longrightarrow> Size t3 = uint sz))
   \<and> (decodeHeaders t r = (Some e, t3, r5) \<longrightarrow> Decode S t r = (Some e, t3, r5))
   \<and> (decodeHeaders t r = (None, t3, r5)
        \<and> Flags t3 AND TagFlagHasCRC \<noteq> 0 \<and> ChecksumIEEE (Bytes r5) \<noteq> CRC t3
      \<longrightarrow> Decode S t r = (Some ErrFailedCRC, t3, r5))
   \<and> (decodeHeaders t r = (None, t3, r5)
        \<and> \<not> (Flags t3 AND TagFlagHasCRC \<noteq> 0 \<and> ChecksumIEEE (Bytes r5) \<noteq> CRC t3)
        \<and> decodeFrames S t3 r5 = (Some e, t', r')
      \<longrightarrow> Decode S t r = (Some e, t', r')
          \<and> (\<exists>fs rk. frameRun S t3 r5 fs rk \<and> 0 < Len rk
                \<and> decodeFrame S t3 rk = (Inl e, r')
                \<and> t' = t3\<lparr>Frames := Frames t3 @ fs\<rparr>
                \<and> (\<forall>fs' rk' e' r''. frameRun S t3 r5 fs' rk'
                       \<and> decodeFrame S t3 rk' = (Inl e', r'') \<longrightarrow> fs' = fs \<and> rk' = rk)))"
proof (intro conjI impI)
  assume "decodeHeaders t r = (eo, t3, r5)"
  from decodeHeaders_fields[OF this]
  show "Frames t3 = Frames t" "Version t3 = Version t" "Padding t3 = Padding t"
    "err (Load 6 r) \<noteq> None \<or> fst (ConsumeBytes 10 (Load 6 r)) ! 4 \<noteq> 0 \<Longrightarrow> t3 = t"
    "err (Load 6 r) = None \<and> fst (ConsumeBytes 10 (Load 6 r)) ! 4 = 0
       \<Longrightarrow> Flags t3 AND 15 = flagMap_Decode headerFlags (ucast (fst (ConsumeBytes 10 (Load 6 r)) ! 5))"
    "\<forall>sz. err (Load 6 r) = None \<and> fst (ConsumeBytes 10 (Load 6 r)) ! 4 = 0
                \<and> decodeSyncSafeUint32 (take 4 (drop 6 (fst (ConsumeBytes 10 (Load 6 r))))) = Inr sz
           \<longrightarrow> Size t3 = uint sz"
    by blast+
next
  assume "decodeHeaders t r = (Some e, t3, r5)"
  then show "Decode S t r = (Some e, t3, r5)" by (simp add: Decode_def)
next
  assume "decodeHeaders t r = (None, t3, r5)
        \<and> Flags t3 AND TagFlagHasCRC \<noteq> 0 \<and> ChecksumIEEE (Bytes r5) \<noteq> CRC t3"
  then show "Decode S t r = (Some ErrFailedCRC, t3, r5)" by (simp add: Decode_def)
next
  assume a: "decodeHeaders t r = (None, t3, r5)
        \<and> \<not> (Flags t3 AND TagFlagHasCRC \<noteq> 0 \<and> ChecksumIEEE (Bytes r5) \<noteq> CRC t3)
        \<and> decodeFrames S t3 r5 = (Some e, t', r')"
  then show "Decode S t r = (Some e, t', r')" by (auto simp add: Decode_def)
  from a have "decodeFrames S t3 r5 = (Some e, t', r')" by simp
  from decodeFrames_error_run[OF this] obtain fs rk where
    b: "frameRun S t3 r5 fs rk" "0 < Len rk" "decodeFrame S t3 rk = (Inl e, r')"
       "t' = t3\<lparr>Frames := Frames t3 @ fs\<rparr>"
    by blast
  have "\<forall>fs' rk' e' r''. frameRun S t3 r5 fs' rk'
                       \<and> decodeFrame S t3 rk' = (Inl e', r'') \<longrightarrow> fs' = fs \<and> rk' = rk"
    using frameRun_unique[OF b(1) b(3)] by blast
  with b show "\<exists>fs rk. frameRun S t3 r5 fs rk \<and> 0 < Len rk
                \<and> decodeFrame S t3 rk = (Inl e, r')
                \<and> t' = t3\<lparr>Frames := Frames t3 @ fs\<rparr>
                \<and> (\<forall>fs' rk' e' r''. frameRun S t3 r5 fs' rk'
                       \<and> decodeFrame S t3 rk' = (Inl e', r'') \<longrightarrow> fs' = fs \<and> rk' = rk)"
    by blast
qed

theorem Decode_failure_leaves_partial_tag_witness:
  "decodeHeaders zeroTag (readerOf wire_short_body)
     = (Some EOF, zeroTag\<lparr>Flags := TagFlagFooter, Size := 50\<rparr>,
        \<lparr>buf = [], src = drop 10 wire_short_body, err = Some EOF\<rparr>)
   \<and> Decode ScanFrame_opaque zeroTag (readerOf wire_short_body)
     = (Some EOF, zeroTag\<lparr>Flags := TagFlagFooter, Size := 50\<rparr>,
        \<lparr>buf = [], src = drop 10 wire_short_body, err = Some EOF\<rparr>)
   \<and> Flags (zeroTag\<lparr>Flags := TagFlagFooter, Size := 50\<rparr>) AND 15
       = flagMap_Decode headerFlags (ucast (wire_short_body ! 5))
   \<and> decodeSyncSafeUint32 (take 4 (drop 6 wire_short_body)) = Inr 50
   \<and> decodeHeaders zeroTag (readerOf wire_bad_third_frame)
     = (None, zeroTag\<lparr>Flags := TagFlagFooter, Size := 32\<rparr>,
        \<lparr>buf = drop 10 wire_bad_third_frame, src = [], err = None\<rparr>)
   \<and> Decode ScanFrame_opaque zeroTag (readerOf wire_bad_third_frame)
     = (Some ErrInvalidFrameHeader,
        zeroTag\<lparr>Flags := TagFlagFooter, Size := 32, Frames := [frame_X_a, frame_Z_b]\<rparr>,
        \<lparr>buf = [], src = [], err = None\<rparr>)
   \<and> frameRun ScanFrame_opaque (zeroTag\<lparr>Flags := TagFlagFooter, Size := 32\<rparr>)
        \<lparr>buf = drop 10 wire_bad_third_frame, src = [], err = None\<rparr>
        [frame_X_a, frame_Z_b]
        \<lparr>buf = drop 32 wire_bad_third_frame, src = [], err = None\<rparr>
   \<and> decodeFrame ScanFrame_opaque (zeroTag\<lparr>Flags := TagFlagFooter, Size := 32\<rparr>)
        \<lparr>buf = drop 32 wire_bad_third_frame, src = [], err = None\<rparr>
     = (Inl ErrInvalidFrameHeader, \<lparr>buf = [], src = [], err = None\<rparr>)"
proof -
  let ?ra = "readerOf wire_short_body"
  let ?ta = "zeroTag\<lparr>Flags := TagFlagFooter, Size := 50\<rparr>"
  let ?r5a = "\<lparr>buf = [], src = drop 10 wire_short_body, err = Some EOF\<rparr>"
  let ?r = "readerOf wire_bad_third_frame"
  let ?t3 = "zeroTag\<lparr>Flags := TagFlagFooter, Size := 32\<rparr>"
  let ?r5 = "\<lparr>buf = drop 10 wire_bad_third_frame, src = [], err = None\<rparr>"
  let ?t' = "zeroTag\<lparr>Flags := TagFlagFooter, Size := 32, Frames := [frame_X_a, frame_Z_b]\<rparr>"
  let ?rk = "\<lparr>buf = drop 32 wire_bad_third_frame, src = [], err = None\<rparr>"
  let ?r' = "\<lparr>buf = [], src = [], err = None\<rparr>"
  have ha: "decodeHeaders zeroTag ?ra = (Some EOF, ?ta, ?r5a)"
    by code_simp
  have la: "err (Load 6 ?ra) = None \<and> fst (ConsumeBytes 10 (Load 6 ?ra)) ! 4 = 0"
    by code_simp
  have hd: "fst (ConsumeBytes 10 (Load 6 ?ra)) = take 10 wire_short_body"
    by code_simp
  have sa: "decodeSyncSafeUint32 (take 4 (drop 6 (fst (ConsumeBytes 10 (Load 6 ?ra))))) = Inr 50"
    by code_simp
  from Decode_failure_leaves_partial_tag[of zeroTag ?ra "Some EOF" ?ta ?r5a EOF ScanFrame_opaque] ha la sa
  have a1: "Decode ScanFrame_opaque zeroTag ?ra = (Some EOF, ?ta, ?r5a)"
    and a2: "Flags ?ta AND 15
       = flagMap_Decode headerFlags (ucast (fst (ConsumeBytes 10 (Load 6 ?ra)) ! 5))"
    and a3: "Size ?ta = uint (50::uint32)"
    by blast+
  from a2 have a2': "Flags ?ta AND 15 = flagMap_Decode headerFlags (ucast (wire_short_body ! 5))"
    unfolding hd by (simp add: wire_short_body_def)
  from sa have a4: "decodeSyncSafeUint32 (take 4 (drop 6 wire_short_body)) = Inr 50"
    unfolding hd by (simp add: wire_short_body_def)
  have h: "decodeHeaders zeroTag ?r = (None, ?t3, ?r5)"
    by code_simp
  have c: "\<not> (Flags ?t3 AND TagFlagHasCRC \<noteq> 0 \<and> ChecksumIEEE (Bytes ?r5) \<noteq> CRC ?t3)"
    by (simp add: TagFlagFooter_def TagFlagHasCRC_def)
  have f: "decodeFrames ScanFrame_opaque ?t3 ?r5 = (Some ErrInvalidFrameHeader, ?t', ?r')"
    by code_simp
  have g: "frameRun ScanFrame_opaque ?t3 ?r5 [frame_X_a, frame_Z_b] ?rk
           \<and> decodeFrame ScanFrame_opaque ?t3 ?rk = (Inl ErrInvalidFrameHeader, ?r')"
    by code_simp
  from Decode_failure_leaves_partial_tag[of zeroTag ?r None ?t3 ?r5 ErrInvalidFrameHeader
         ScanFrame_opaque ?t' ?r'] h c f
  have 1: "Decode ScanFrame_opaque zeroTag ?r = (Some ErrInvalidFrameHeader, ?t', ?r')"
    and 2: "\<exists>fs rk. frameRun ScanFrame_opaque ?t3 ?r5 fs rk \<and> 0 < Len rk
                \<and> decodeFrame ScanFrame_opaque ?t3 rk = (Inl ErrInvalidFrameHeader, ?r')
                \<and> ?t' = ?t3\<lparr>Frames := Frames ?t3 @ fs\<rparr>
                \<and> (\<forall>fs' rk' e' r''. frameRun ScanFrame_opaque ?t3 ?r5 fs' rk'
                       \<and> decodeFrame ScanFrame_opaque ?t3 rk' = (Inl e', r'')
                     \<longrightarrow> fs' = fs \<and> rk' = rk)"
    by blast+
  from ha a1 a2' a4 h 1 g show ?thesis by blast
qed

subsection \<open>Bounded byte fields\<close>









subsection \<open>Tag roundtrip\<close>




end
